theory Spec2Isabelle
  imports Complex_Main
begin

section \<open>Tensors with values and derivatives\<close>

text \<open>
  The estimator of \<^verbatim>\<open>torchmdexp/weighted_ensembles/weighted_ensemble.py\<close> computes
  on one-dimensional torch tensors whose entries carry a value and, through autograd,
  a derivative with respect to the parameters of the potential. An entry is modelled
  as a dual number: its value (a real number) and its derivative along one fixed
  direction of the parameter space. \<^verbatim>\<open>detach()\<close> keeps the value and makes the
  derivative zero; a tensor built from plain Python numbers has derivative zero.

  Values are real numbers: rounding is not modelled. A tensor operation whose IEEE
  result would hold an infinity or a NaN (a division by zero, the logarithm of a
  non-positive number, a cast to single precision beyond its range, a non-finite
  energy from the potential) gives the outcome \<open>NonFinite\<close>, which is propagated to the
  caller as NaN propagates through the arithmetic that follows.
\<close>

datatype dual = Dual (primal: real) (tangent: real)

type_synonym tensor = "dual list"

datatype error =
  ZeroDivisionError | IndexError | KeyError | ValueError | ShapeError | RuntimeError | NonFinite

definition const :: "real \<Rightarrow> dual" where
  "const c = Dual c 0"

definition dsub :: "dual \<Rightarrow> dual \<Rightarrow> dual" where
  "dsub a b = Dual (primal a - primal b) (tangent a - tangent b)"

definition dmul :: "dual \<Rightarrow> dual \<Rightarrow> dual" where
  "dmul a b = Dual (primal a * primal b) (tangent a * primal b + primal a * tangent b)"

definition ddiv :: "dual \<Rightarrow> dual \<Rightarrow> dual" where
  "ddiv a b = Dual (primal a / primal b)
                   ((tangent a * primal b - primal a * tangent b) / (primal b * primal b))"

definition dneg :: "dual \<Rightarrow> dual" where
  "dneg a = Dual (- primal a) (- tangent a)"

definition dexp :: "dual \<Rightarrow> dual" where
  "dexp a = Dual (exp (primal a)) (tangent a * exp (primal a))"

definition dlog :: "dual \<Rightarrow> dual" where
  "dlog a = Dual (ln (primal a)) (tangent a / primal a)"

definition detach1 :: "dual \<Rightarrow> dual" where
  "detach1 a = Dual (primal a) 0"

definition detach :: "tensor \<Rightarrow> tensor" where
  "detach xs = map detach1 xs"

text \<open>
  Binary elementwise operations broadcast as torch does on one-dimensional tensors:
  equal lengths are combined entry by entry, a tensor of length one is stretched, and
  any other pair of lengths raises torch's \<^verbatim>\<open>RuntimeError\<close> for mismatched shapes.
\<close>

definition broadcast2 :: "(dual \<Rightarrow> dual \<Rightarrow> dual) \<Rightarrow> tensor \<Rightarrow> tensor \<Rightarrow> error + tensor" where
  "broadcast2 f xs ys =
     (if length xs = length ys then Inr (map2 f xs ys)
      else if length xs = 1 then Inr (map (f (hd xs)) ys)
      else if length ys = 1 then Inr (map (\<lambda>x. f x (hd ys)) xs)
      else Inl ShapeError)"

definition torch_subtract :: "tensor \<Rightarrow> tensor \<Rightarrow> error + tensor" where
  "torch_subtract xs ys = broadcast2 dsub xs ys"

definition torch_multiply :: "tensor \<Rightarrow> tensor \<Rightarrow> error + tensor" where
  "torch_multiply xs ys = broadcast2 dmul xs ys"

text \<open>Division of a tensor by a scalar (a Python number or a zero-dimensional tensor).\<close>

definition torch_divide :: "tensor \<Rightarrow> dual \<Rightarrow> error + tensor" where
  "torch_divide xs d =
     (if xs \<noteq> [] \<and> primal d = 0 then Inl NonFinite
      else Inr (map (\<lambda>x. ddiv x d) xs))"

definition torch_neg :: "tensor \<Rightarrow> tensor" where
  "torch_neg xs = map dneg xs"

definition torch_exp :: "tensor \<Rightarrow> tensor" where
  "torch_exp xs = map dexp xs"

definition torch_log :: "tensor \<Rightarrow> error + tensor" where
  "torch_log xs =
     (if \<exists>x \<in> set xs. primal x \<le> 0 then Inl NonFinite else Inr (map dlog xs))"

definition torch_sum :: "tensor \<Rightarrow> dual" where
  "torch_sum xs = Dual (sum_list (map primal xs)) (sum_list (map tangent xs))"

text \<open>
  The cast \<^verbatim>\<open>.type(torch.float32)\<close> of a tensor of coordinates. A number whose magnitude
  reaches \<open>(2 - 1 / 2 ^ 24) * 2 ^ 127\<close> is rounded to an infinity; every other number keeps
  its value, up to the rounding that is not modelled.
\<close>

definition float32_overflow :: real where
  "float32_overflow = (2 - 1 / 2 ^ 24) * 2 ^ 127"

definition to_float32 :: "real list list \<Rightarrow> error + real list list" where
  "to_float32 pos =
     (if list_all (list_all (\<lambda>x. \<bar>x\<bar> < float32_overflow)) pos then Inr pos
      else Inl NonFinite)"

section \<open>The estimator's configuration\<close>

text \<open>
  A state is a list of atoms, each atom a list of three coordinates; a batch of states
  is a list of states. The potential \<open>nnp\<close> is an external collaborator: it receives
  the flattened embeddings, the atom positions and the per-atom batch index, and
  returns the energies of the states (its forces are ignored by the estimator), or
  \<open>Inl\<close> when it raises or when an energy is not finite. The metric and the loss
  transform are supplied by the caller as well.
\<close>

type_synonym state = "real list list"

type_synonym grads = "real list option list"

text \<open>
  The attributes of a \<^verbatim>\<open>WeightedEnsemble\<close> that its methods read. Two of them stand
  for torch itself: \<open>backward\<close> is \<^verbatim>\<open>loss.backward()\<close>, which takes the loss and the
  gradient slots of the parameters and returns the slots with the gradient of the loss
  accumulated into them, or raises (as it does for a loss that no parameter
  contributes to), and \<open>set_to_none\<close> is the default of the optimizer's
  \<^verbatim>\<open>zero_grad\<close> (false before torch 2.0, true from then on).
\<close>

record weighted_ensemble =
  nnp :: "int list \<Rightarrow> real list list \<Rightarrow> nat list \<Rightarrow> error + tensor"
  metric :: "state \<Rightarrow> state \<Rightarrow> real"
  loss_fn :: "dual \<Rightarrow> dual"
  T :: real
  replicas :: nat
  backward :: "dual \<Rightarrow> grads \<Rightarrow> error + grads"
  set_to_none :: bool

text \<open>
  The contract of the potential: when it returns energies, it returns one for every
  state of the batch it is given, that is, for every index that occurs in the batch
  index.
\<close>

definition one_energy_per_state :: "weighted_ensemble \<Rightarrow> bool" where
  "one_energy_per_state self \<longleftrightarrow>
     (\<forall>emb pos batch E. nnp self emb pos batch = Inr E \<longrightarrow> length E = card (set batch))"

definition BOLTZMAN :: real where
  "BOLTZMAN = 0.001987191"

section \<open>The external-potential evaluator\<close>

text \<open>Python's \<^verbatim>\<open>xs[a:b]\<close> for \<open>0 \<le> a \<le> b\<close>; the slice is cut at the end of the list.\<close>

definition slice :: "nat \<Rightarrow> nat \<Rightarrow> 'a list \<Rightarrow> 'a list" where
  "slice a b xs = take (b - a) (drop a xs)"

text \<open>
  One pass of the loop over the replicas in \<^verbatim>\<open>_extEpot\<close>: the sub-batch of states is
  cut out and its coordinates are cast to single precision, the first embedding row is
  repeated once per state of the sub-batch, every atom gets the index of its state, and
  the energies returned by the potential are appended to the energies collected so
  far, together with their detached copy.
\<close>

definition extEpot_step ::
  "weighted_ensemble \<Rightarrow> state list \<Rightarrow> int list \<Rightarrow> nat \<Rightarrow> nat \<Rightarrow> tensor \<times> tensor
     \<Rightarrow> error + (tensor \<times> tensor)" where
  "extEpot_step self states emb0 batch_num irepl acc =
     (let batch_states = slice (batch_num * irepl) (batch_num * (irepl + 1)) states in
      case to_float32 (concat batch_states) of
        Inl e \<Rightarrow> Inl e
      | Inr pos \<Rightarrow>
          (let embeddings_nnp = replicate (length batch_states) emb0;
               batch = concat (map (\<lambda>i. replicate (length emb0) i) [0..<length embeddings_nnp])
           in case nnp self (concat embeddings_nnp) pos batch of
                Inl e \<Rightarrow> Inl e
              | Inr batch_ext_energies \<Rightarrow>
                  (let batch_ext_energies_hat = detach batch_ext_energies
                   in Inr (fst acc @ batch_ext_energies, snd acc @ batch_ext_energies_hat))))"

text \<open>The loop: the passes run in order and the first failure ends it.\<close>

fun extEpot_loop ::
  "weighted_ensemble \<Rightarrow> state list \<Rightarrow> int list \<Rightarrow> nat \<Rightarrow> nat list \<Rightarrow> tensor \<times> tensor
     \<Rightarrow> error + (tensor \<times> tensor)" where
  "extEpot_loop self states emb0 batch_num [] acc = Inr acc"
| "extEpot_loop self states emb0 batch_num (irepl # rest) acc =
     (case extEpot_step self states emb0 batch_num irepl acc of
        Inl e \<Rightarrow> Inl e
      | Inr acc' \<Rightarrow> extEpot_loop self states emb0 batch_num rest acc')"

text \<open>
  \<^verbatim>\<open>_extEpot\<close>. The integer division by the replica count raises for a count of zero,
  and \<^verbatim>\<open>embeddings[0]\<close> raises when there is no embedding row. Nothing else is checked.
  The argument \<^verbatim>\<open>mode\<close> of the source is never read and is left out.
\<close>

definition extEpot ::
  "weighted_ensemble \<Rightarrow> state list \<Rightarrow> int list list \<Rightarrow> error + (tensor \<times> tensor)" where
  "extEpot self states embeddings =
     (if replicas self = 0 then Inl ZeroDivisionError
      else case embeddings of
             [] \<Rightarrow> Inl IndexError
           | emb0 # _ \<Rightarrow>
               extEpot_loop self states emb0 (length states div replicas self)
                 [0..<replicas self] ([], []))"

text \<open>
  What the potential is asked and what it answers, stated without the evaluator: the
  replica count is not zero, and for every replica \<open>irepl\<close> the coordinates of the
  \<open>n div replicas\<close> states from position \<open>(n div replicas) * irepl\<close> on are within single
  precision and the potential, given these states, returns the energies \<open>Es ! irepl\<close>.
\<close>

definition potential_returns ::
  "weighted_ensemble \<Rightarrow> state list \<Rightarrow> int list \<Rightarrow> tensor list \<Rightarrow> bool" where
  "potential_returns self states emb0 Es \<longleftrightarrow>
     replicas self \<noteq> 0 \<and> length Es = replicas self \<and>
     (\<forall>irepl < replicas self.
        list_all (list_all (\<lambda>x. \<bar>x\<bar> < float32_overflow))
          (concat (take (length states div replicas self)
                     (drop (length states div replicas self * irepl) states))) \<and>
        nnp self (concat (replicate (length states div replicas self) emb0))
          (concat (take (length states div replicas self)
                     (drop (length states div replicas self * irepl) states)))
          (concat (map (\<lambda>i. replicate (length emb0) i) [0..<length states div replicas self])) =
        Inr (Es ! irepl))"

section \<open>The importance-weight estimator\<close>

text \<open>The local variable \<^verbatim>\<open>U_arg\<close> of \<^verbatim>\<open>_weights\<close>.\<close>

definition U_arg :: "weighted_ensemble \<Rightarrow> tensor \<Rightarrow> tensor \<Rightarrow> error + tensor" where
  "U_arg self U_ext U_ext_hat =
     (case torch_subtract U_ext U_ext_hat of
        Inl e \<Rightarrow> Inl e
      | Inr d \<Rightarrow>
          (case torch_divide d (const (T self * BOLTZMAN)) of
             Inl e \<Rightarrow> Inl e
           | Inr q \<Rightarrow> Inr (torch_neg q)))"

text \<open>\<^verbatim>\<open>_weights\<close>: the exponentials of \<^verbatim>\<open>U_arg\<close> divided by their sum.\<close>

definition weights ::
  "weighted_ensemble \<Rightarrow> state list \<Rightarrow> int list list \<Rightarrow> error + (tensor \<times> tensor)" where
  "weights self states embeddings =
     (case extEpot self states embeddings of
        Inl e \<Rightarrow> Inl e
      | Inr (U_ext, U_ext_hat) \<Rightarrow>
          (case U_arg self U_ext U_ext_hat of
             Inl e \<Rightarrow> Inl e
           | Inr u \<Rightarrow>
               (let exponentials = torch_exp u in
                case torch_divide exponentials (torch_sum exponentials) of
                  Inl e \<Rightarrow> Inl e
                | Inr w \<Rightarrow> Inr (w, U_ext_hat))))"

text \<open>\<^verbatim>\<open>_effectiven\<close>: the exponential of the entropy of the weights, detached.\<close>

definition effectiven :: "tensor \<Rightarrow> error + dual" where
  "effectiven ws =
     (case torch_log ws of
        Inl e \<Rightarrow> Inl e
      | Inr lnwi \<Rightarrow>
          (case torch_multiply ws lnwi of
             Inl e \<Rightarrow> Inl e
           | Inr prods \<Rightarrow> Inr (detach1 (dexp (dneg (torch_sum prods))))))"

section \<open>The weighted-ensemble observable and the loss\<close>

text \<open>
  The Python values that occur as the flag \<^verbatim>\<open>val\<close> and in the diagnostics: \<^verbatim>\<open>None\<close>, a
  boolean, an integer, a float (a number or NaN) and a string. Python's \<^verbatim>\<open>==\<close> between
  such a value and a boolean: \<^verbatim>\<open>bool\<close> is a subclass of \<^verbatim>\<open>int\<close>, so \<^verbatim>\<open>False\<close> equals
  \<^verbatim>\<open>0\<close> and \<^verbatim>\<open>0.0\<close>, and \<^verbatim>\<open>True\<close> equals \<^verbatim>\<open>1\<close> and \<^verbatim>\<open>1.0\<close>; NaN equals nothing.
\<close>

datatype pyval = PyNone | PyBool bool | PyInt int | PyFloat real | PyNaN | PyStr string

fun py_eq_bool :: "pyval \<Rightarrow> bool \<Rightarrow> bool" where
  "py_eq_bool (PyBool c) b = (c = b)"
| "py_eq_bool (PyInt i) b = (i = (if b then 1 else 0))"
| "py_eq_bool (PyFloat x) b = (x = (if b then 1 else 0))"
| "py_eq_bool PyNone b = False"
| "py_eq_bool PyNaN b = False"
| "py_eq_bool (PyStr s) b = False"

text \<open>
  \<^verbatim>\<open>compute_we\<close>. The metric values form a fresh tensor without gradient; values above
  \<^verbatim>\<open>10e6\<close> are replaced by \<^verbatim>\<open>10e6\<close>; their mean is reported as a Python float, which is
  NaN for an empty batch; the weighted observable is the sum of the products of weights
  and metric values. The argument \<open>neff_threshold\<close> is the keyword argument of the
  source.
\<close>

definition compute_we ::
  "weighted_ensemble \<Rightarrow> state list \<Rightarrow> state \<Rightarrow> int list list \<Rightarrow> real option
     \<Rightarrow> error + (dual \<times> pyval)" where
  "compute_we self states crystal embeddings neff_threshold =
     (case weights self states embeddings of
        Inl e \<Rightarrow> Inl e
      | Inr (ws, U_ext_hat) \<Rightarrow>
          (let obs0 = map (\<lambda>state. metric self state crystal) states;
               obs = map (\<lambda>ob. if ob > 10000000 then 10000000 else ob) obs0;
               avg_metric = (if obs = [] then PyNaN
                             else PyFloat (sum_list obs / real (length obs)))
           in case torch_multiply ws (map const obs) of
                Inl e \<Rightarrow> Inl e
              | Inr prods \<Rightarrow> Inr (torch_sum prods, avg_metric)))"

text \<open>The diagnostics dictionary maps a key to a Python value.\<close>

type_synonym values_dict = "string \<rightharpoonup> pyval"

definition compute_loss ::
  "weighted_ensemble \<Rightarrow> state \<Rightarrow> state list \<Rightarrow> int list list \<Rightarrow> pyval
     \<Rightarrow> error + (dual \<times> values_dict)" where
  "compute_loss self crystal states embeddings val =
     (case compute_we self states crystal embeddings None of
        Inl e \<Rightarrow> Inl e
      | Inr (w_e, avg_metric) \<Rightarrow>
          (let we_loss = loss_fn self w_e;
               values_dict =
                 (if py_eq_bool val False
                  then [''loss_2'' \<mapsto> PyNone, ''loss_1'' \<mapsto> PyFloat (primal we_loss)]
                  else [''val_loss_2'' \<mapsto> PyNone,
                        ''val_loss_1'' \<mapsto> PyFloat (primal we_loss)])
           in Inr (we_loss, values_dict(''avg_metric'' \<mapsto> avg_metric))))"

section \<open>The gradient-norm history\<close>

text \<open>
  Modelled from the spec: the class \<^verbatim>\<open>Queue\<close> of \<^verbatim>\<open>torchmdexp.utils.clip_grad\<close>. The
  history is a bounded first-in-first-out sequence of gradient norms with a mean and a
  standard deviation. The spec gives no capacity, so it is a field; for the standard
  deviation the population form is taken.
\<close>

record queue =
  items :: "real list"
  max_len :: nat

definition queue_add :: "queue \<Rightarrow> real \<Rightarrow> queue" where
  "queue_add q x =
     (let xs = items q @ [x]
      in q\<lparr>items := (if length xs > max_len q then tl xs else xs)\<rparr>)"

definition queue_mean :: "queue \<Rightarrow> real" where
  "queue_mean q = sum_list (items q) / real (length (items q))"

definition queue_std :: "queue \<Rightarrow> real" where
  "queue_std q =
     sqrt (sum_list (map (\<lambda>x. (x - queue_mean q) * (x - queue_mean q)) (items q))
           / real (length (items q)))"

text \<open>
  Modelled from the spec: \<^verbatim>\<open>get_grad_norm\<close> of \<^verbatim>\<open>torchmdexp.utils.clip_grad\<close>, the total
  norm of the gradients of all parameters that have one.
\<close>

definition norm2 :: "real list \<Rightarrow> real" where
  "norm2 g = sqrt (sum_list (map (\<lambda>x. x * x) g))"

definition get_grad_norm :: "grads \<Rightarrow> real" where
  "get_grad_norm gs = norm2 (concat (map (\<lambda>g. case g of None \<Rightarrow> [] | Some v \<Rightarrow> v) gs))"

text \<open>
  torch's \<^verbatim>\<open>clip_grad_norm_\<close> on the gradient of one parameter: the gradient is
  multiplied by \<^verbatim>\<open>max_norm / (norm + 1e-6)\<close> when that factor is below one.
\<close>

definition clip_grad_norm :: "real list \<Rightarrow> real \<Rightarrow> real list" where
  "clip_grad_norm g max_norm =
     (let total_norm = norm2 g;
          clip_coef = max_norm / (total_norm + 0.000001);
          clip_coef_clamped = min clip_coef 1
      in map (\<lambda>x. x * clip_coef_clamped) g)"

section \<open>Computing and applying gradients\<close>

text \<open>
  What the methods change: the gradient slot of every parameter (\<open>None\<close> while a
  parameter has no gradient), the gradient-norm history, and the optimizer, of which
  only the number of steps taken is kept. The parameters of the potential and the
  parameters tracked by the optimizer are the same list.
\<close>

record we_state =
  param_grads :: grads
  gradnorm_queue :: queue
  opt_steps :: nat

definition zero_grad :: "bool \<Rightarrow> grads \<Rightarrow> grads" where
  "zero_grad to_none gs =
     map (\<lambda>g. case g of
                 None \<Rightarrow> None
               | Some v \<Rightarrow> if to_none then None else Some (map (\<lambda>x. 0) v)) gs"

type_synonym gradients_result = "grads option \<times> real \<times> values_dict"

text \<open>
  \<^verbatim>\<open>compute_gradients\<close>. The state is returned together with the outcome, since
  \<^verbatim>\<open>zero_grad\<close> has already run when a later step raises. The argument
  \<^verbatim>\<open>native_ensemble\<close> of the source is never read and is left out. When the backward
  pass raises, the slots stay as \<^verbatim>\<open>zero_grad\<close> left them.
\<close>

definition compute_gradients ::
  "weighted_ensemble \<Rightarrow> state \<Rightarrow> state list \<Rightarrow> int list list \<Rightarrow> bool \<Rightarrow> pyval \<Rightarrow> we_state
     \<Rightarrow> we_state \<times> (error + gradients_result)" where
  "compute_gradients self crystal states embeddings grads_to_cpu val st =
     (if py_eq_bool val False then
        (let st1 = st\<lparr>param_grads := zero_grad (set_to_none self) (param_grads st)\<rparr> in
         case compute_loss self crystal states embeddings (PyBool False) of
           Inl e \<Rightarrow> (st1, Inl e)
         | Inr (loss, values_dict) \<Rightarrow>
             (case values_dict ''avg_metric'' of
                None \<Rightarrow> (st1, Inl KeyError)
              | Some avg \<Rightarrow>
                  (let values_dict' = values_dict(''train_avg_metric'' \<mapsto> avg) in
                   if primal loss \<noteq> 0 then
                     (case backward self loss (param_grads st1) of
                        Inl e \<Rightarrow> (st1, Inl e)
                      | Inr gs \<Rightarrow>
                          (let st2 = st1\<lparr>param_grads := gs\<rparr>;
                               grads = (if grads_to_cpu then param_grads st2
                                        else filter (\<lambda>g. g \<noteq> None) (param_grads st2))
                           in (st2, Inr (Some grads, primal loss, values_dict'))))
                   else (st1, Inr (None, primal loss, values_dict')))))
      else if py_eq_bool val True then
        (case compute_loss self crystal states embeddings (PyBool False) of
           Inl e \<Rightarrow> (st, Inl e)
         | Inr (loss, values_dict) \<Rightarrow>
             (case values_dict ''avg_metric'' of
                None \<Rightarrow> (st, Inl KeyError)
              | Some avg \<Rightarrow>
                  (st, Inr (None, primal (detach1 loss),
                            values_dict(''val_avg_metric'' \<mapsto> avg)))))
      else (st, Inl ValueError))"

text \<open>
  \<^verbatim>\<open>clip_gradients\<close>. Every parameter that has a gradient is passed to
  \<^verbatim>\<open>clip_grad_norm_\<close> on its own. With an empty history the mean is not a number.
\<close>

definition clip_gradients :: "we_state \<Rightarrow> error + we_state" where
  "clip_gradients st =
     (if items (gradnorm_queue st) = [] then Inl NonFinite
      else
        (let dynamic_max_grad_norm =
               1.5 * queue_mean (gradnorm_queue st) + 2 * queue_std (gradnorm_queue st);
             grad_norm = get_grad_norm (param_grads st);
             clipped = map (\<lambda>g. case g of
                                   None \<Rightarrow> None
                                 | Some v \<Rightarrow> Some (clip_grad_norm v dynamic_max_grad_norm))
                         (param_grads st)
         in Inr (st\<lparr>param_grads := clipped,
                    gradnorm_queue :=
                      (if grad_norm > dynamic_max_grad_norm
                       then queue_add (gradnorm_queue st) dynamic_max_grad_norm
                       else queue_add (gradnorm_queue st) grad_norm)\<rparr>)))"

text \<open>
  The loop of \<^verbatim>\<open>apply_gradients\<close> over \<^verbatim>\<open>zip(gradients, parameters)\<close>: a gradient that
  is not \<^verbatim>\<open>None\<close> replaces the slot of its parameter.
\<close>

fun assign_grads :: "grads \<Rightarrow> grads \<Rightarrow> grads" where
  "assign_grads (g # gs) (p # ps) =
     (case g of None \<Rightarrow> p | Some v \<Rightarrow> Some v) # assign_grads gs ps"
| "assign_grads gs ps = ps"

definition apply_gradients :: "grads option \<Rightarrow> we_state \<Rightarrow> error + we_state" where
  "apply_gradients gradients st =
     (case (case gradients of
              None \<Rightarrow> Inr st
            | Some [] \<Rightarrow> Inr st
            | Some (g # gs) \<Rightarrow>
                clip_gradients
                  (st\<lparr>param_grads := assign_grads (g # gs) (param_grads st)\<rparr>)) of
        Inl e \<Rightarrow> Inl e
      | Inr st1 \<Rightarrow> Inr (st1\<lparr>opt_steps := opt_steps st1 + 1\<rparr>))"

section \<open>Example inputs\<close>

text \<open>
  A small estimator on which the theorems below are instantiated. The example potential
  returns one energy per batch index: the sum of the first coordinates of the atoms of
  that state, with the sum of their second coordinates as its derivative. The metric
  is the distance between the first coordinates of the first atoms of state and
  reference, the loss transform is the identity, and autograd adds the derivative of
  the loss to every gradient slot. The example state has the history as the
  constructor seeds it, with the single entry 3000.
\<close>

definition ex_nnp :: "int list \<Rightarrow> real list list \<Rightarrow> nat list \<Rightarrow> error + tensor" where
  "ex_nnp emb pos batch =
     Inr (map (\<lambda>i. Dual (sum_list (map (\<lambda>(p, b). if b = i then (case p of x # _ \<Rightarrow> x | _ \<Rightarrow> 0) else 0)
                                    (zip pos batch)))
                    (sum_list (map (\<lambda>(p, b). if b = i then (case p of _ # y # _ \<Rightarrow> y | _ \<Rightarrow> 0) else 0)
                                    (zip pos batch))))
         (remdups batch))"

definition ex_metric :: "state \<Rightarrow> state \<Rightarrow> real" where
  "ex_metric s c = (case (s, c) of ((x # _) # _, (y # _) # _) \<Rightarrow> \<bar>x - y\<bar> | _ \<Rightarrow> 0)"

definition ex_backward :: "dual \<Rightarrow> grads \<Rightarrow> error + grads" where
  "ex_backward loss gs =
     Inr (map (\<lambda>g. case g of
                      None \<Rightarrow> Some [tangent loss]
                    | Some v \<Rightarrow> Some (map (\<lambda>x. x + tangent loss) v)) gs)"

definition ex_self :: weighted_ensemble where
  "ex_self = \<lparr>nnp = ex_nnp, metric = ex_metric, loss_fn = (\<lambda>w. w), T = 350, replicas = 1,
              backward = ex_backward, set_to_none = False\<rparr>"

definition ex_state :: "we_state" where
  "ex_state = \<lparr>param_grads = [Some [3, 4], None],
               gradnorm_queue = \<lparr>items = [3000], max_len = 50\<rparr>,
               opt_steps = 0\<rparr>"

text \<open>A loss transform that returns zero for every weighted observable.\<close>

definition ex_zero_loss :: "dual \<Rightarrow> dual" where
  "ex_zero_loss w_e = const 0"

section \<open>Facts about the evaluator and the weights\<close>

lemma extEpot_step_detach:
  assumes "extEpot_step self states emb0 bn irepl acc = Inr r" and "snd acc = detach (fst acc)"
  shows "snd r = detach (fst r)"
  using assms
  by (auto simp: extEpot_step_def Let_def detach_def split: sum.splits)

lemma extEpot_loop_detach:
  assumes "extEpot_loop self states emb0 bn is acc = Inr r" and "snd acc = detach (fst acc)"
  shows "snd r = detach (fst r)"
  using assms
proof (induction "is" arbitrary: acc)
  case Nil
  then show ?case by simp
next
  case (Cons i "is")
  from Cons.prems(1) obtain acc' where
    s: "extEpot_step self states emb0 bn i acc = Inr acc'"
    and l: "extEpot_loop self states emb0 bn is acc' = Inr r"
    by (auto split: sum.splits)
  from extEpot_step_detach [OF s Cons.prems(2)] have "snd acc' = detach (fst acc')" .
  with l show ?case by (rule Cons.IH)
qed

lemma extEpot_detached:
  assumes "extEpot self states embeddings = Inr (U_ext, U_ext_hat)"
  shows "U_ext_hat = detach U_ext"
proof -
  from assms obtain emb0 where
    f: "extEpot_loop self states emb0 (length states div replicas self)
          [0..<replicas self] ([], []) = Inr (U_ext, U_ext_hat)"
    by (auto simp: extEpot_def split: if_splits list.splits)
  have "snd (U_ext, U_ext_hat) = detach (fst (U_ext, U_ext_hat))"
    using f by (rule extEpot_loop_detach) (simp add: detach_def)
  then show ?thesis by simp
qed

text \<open>
  The evaluator returns the energies the potential returns for the sub-batches, in the
  order of the replicas, and their detached copy.
\<close>

lemma extEpot_step_energies:
  assumes "batch_num * (irepl + 1) \<le> length states"
    and "list_all (list_all (\<lambda>x. \<bar>x\<bar> < float32_overflow))
           (concat (take batch_num (drop (batch_num * irepl) states)))"
    and "nnp self (concat (replicate batch_num emb0))
           (concat (take batch_num (drop (batch_num * irepl) states)))
           (concat (map (\<lambda>i. replicate (length emb0) i) [0..<batch_num])) = Inr E"
  shows "extEpot_step self states emb0 batch_num irepl acc =
         Inr (fst acc @ E, snd acc @ detach E)"
proof -
  have s: "slice (batch_num * irepl) (batch_num * (irepl + 1)) states =
           take batch_num (drop (batch_num * irepl) states)"
    by (simp add: slice_def)
  have l: "length (take batch_num (drop (batch_num * irepl) states)) = batch_num"
    using assms(1) by simp
  show ?thesis
    unfolding extEpot_step_def s Let_def l
    using assms(2,3) by (simp add: to_float32_def)
qed

lemma extEpot_loop_energies:
  assumes "\<forall>irepl \<in> set is.
             batch_num * (irepl + 1) \<le> length states \<and>
             list_all (list_all (\<lambda>x. \<bar>x\<bar> < float32_overflow))
               (concat (take batch_num (drop (batch_num * irepl) states))) \<and>
             nnp self (concat (replicate batch_num emb0))
               (concat (take batch_num (drop (batch_num * irepl) states)))
               (concat (map (\<lambda>i. replicate (length emb0) i) [0..<batch_num])) = Inr (Es ! irepl)"
  shows "extEpot_loop self states emb0 batch_num is acc =
         Inr (fst acc @ concat (map ((!) Es) is), snd acc @ detach (concat (map ((!) Es) is)))"
  using assms
proof (induction "is" arbitrary: acc)
  case Nil
  then show ?case by (simp add: detach_def)
next
  case (Cons i "is")
  have "extEpot_step self states emb0 batch_num i acc =
        Inr (fst acc @ Es ! i, snd acc @ detach (Es ! i))"
    using Cons.prems by (intro extEpot_step_energies) simp_all
  moreover have "extEpot_loop self states emb0 batch_num is
                   (fst acc @ Es ! i, snd acc @ detach (Es ! i)) =
                 Inr (fst (fst acc @ Es ! i, snd acc @ detach (Es ! i)) @ concat (map ((!) Es) is),
                      snd (fst acc @ Es ! i, snd acc @ detach (Es ! i)) @
                        detach (concat (map ((!) Es) is)))"
    using Cons.prems by (intro Cons.IH) simp
  ultimately show ?case by (simp add: detach_def)
qed

lemma sub_batch_in_range:
  assumes "irepl < r"
  shows "(n div r) * (irepl + 1) \<le> (n :: nat)"
proof -
  have "irepl + 1 \<le> r" using assms by simp
  then have "(n div r) * (irepl + 1) \<le> (n div r) * r" by (rule mult_le_mono2)
  also have "\<dots> \<le> n" by simp
  finally show ?thesis .
qed

lemma extEpot_energies:
  assumes "potential_returns self states emb0 Es"
  shows "extEpot self states (emb0 # rest) = Inr (concat Es, detach (concat Es))"
proof -
  define bn where "bn = length states div replicas self"
  have r: "replicas self \<noteq> 0" and len: "length Es = replicas self"
    using assms by (simp_all add: potential_returns_def)
  have "\<forall>irepl \<in> set [0..<replicas self].
          bn * (irepl + 1) \<le> length states \<and>
          list_all (list_all (\<lambda>x. \<bar>x\<bar> < float32_overflow))
            (concat (take bn (drop (bn * irepl) states))) \<and>
          nnp self (concat (replicate bn emb0))
            (concat (take bn (drop (bn * irepl) states)))
            (concat (map (\<lambda>i. replicate (length emb0) i) [0..<bn])) = Inr (Es ! irepl)"
  proof -
    have "\<forall>irepl < replicas self. bn * (irepl + 1) \<le> length states"
      unfolding bn_def by (intro allI impI sub_batch_in_range)
    then show ?thesis
      using assms by (simp add: potential_returns_def bn_def)
  qed
  from extEpot_loop_energies [OF this, of "([], [])"]
  have "extEpot_loop self states emb0 bn [0..<replicas self] ([], []) =
        Inr (concat (map ((!) Es) [0..<length Es]), detach (concat (map ((!) Es) [0..<length Es])))"
    by (simp add: len)
  then show ?thesis
    using r by (simp add: extEpot_def bn_def map_nth)
qed

lemma potential_returns_length:
  assumes "potential_returns self states emb0 Es" and "one_energy_per_state self"
    and "emb0 \<noteq> []"
  shows "length (concat Es) = replicas self * (length states div replicas self)"
proof -
  define bn where "bn = length states div replicas self"
  have len: "length Es = replicas self" using assms(1) by (simp add: potential_returns_def)
  have s: "set (concat (map (\<lambda>i. replicate (length emb0) i) [0..<bn])) = {0..<bn}"
    using assms(3) by auto
  have "length (Es ! i) = bn" if "i < length Es" for i
  proof -
    from assms(1) that len
    have "nnp self (concat (replicate bn emb0))
            (concat (take bn (drop (bn * i) states)))
            (concat (map (\<lambda>i. replicate (length emb0) i) [0..<bn])) = Inr (Es ! i)"
      by (simp add: potential_returns_def bn_def)
    with assms(2) have "length (Es ! i) =
        card (set (concat (map (\<lambda>i. replicate (length emb0) i) [0..<bn])))"
      unfolding one_energy_per_state_def by blast
    then show ?thesis by (simp only: s) simp
  qed
  then have "\<forall>E \<in> set Es. length E = bn" by (auto simp: in_set_conv_nth)
  then have "sum_list (map length Es) = length Es * bn"
    by (induction Es) simp_all
  then show ?thesis by (simp add: length_concat len bn_def)
qed

lemma ex_one_energy_per_state:
  "nnp self = ex_nnp \<Longrightarrow> one_energy_per_state self"
  by (auto simp: one_energy_per_state_def ex_nnp_def length_remdups_card_conv)

lemma torch_subtract_detach:
  "torch_subtract U (detach U) = Inr (map (\<lambda>x. Dual 0 (tangent x)) U)"
  by (simp add: torch_subtract_def broadcast2_def detach_def detach1_def dsub_def
      zip_map2 zip_same_conv_map)

lemma U_arg_detach:
  "c \<noteq> 0 \<Longrightarrow> T self * BOLTZMAN = c \<Longrightarrow>
   U_arg self U (detach U) = Inr (map (\<lambda>x. Dual 0 (- (tangent x / c))) U)"
  by (simp add: U_arg_def torch_subtract_detach torch_divide_def const_def ddiv_def
      torch_neg_def dneg_def)

lemma U_arg_zero_temperature:
  "U \<noteq> [] \<Longrightarrow> T self = 0 \<Longrightarrow> U_arg self U (detach U) = Inl NonFinite"
  by (simp add: U_arg_def torch_subtract_detach torch_divide_def const_def)

lemma sum_list_const_one: "sum_list (map (\<lambda>x. 1::real) xs) = real (length xs)"
  by (induction xs) simp_all

lemma sum_list_neg_div:
  "sum_list (map (\<lambda>x. - (f x / c)) xs) = - (sum_list (map f xs) / (c::real))"
  by (induction xs) (simp_all add: add_divide_distrib)

lemma sum_list_div:
  "sum_list (map (\<lambda>x. f x / c) xs) = sum_list (map f xs) / (c::real)"
  by (induction xs) (simp_all add: add_divide_distrib)

lemma torch_exp_zero:
  "torch_exp (map (\<lambda>x. Dual 0 (g x)) xs) = map (\<lambda>x. Dual 1 (g x)) xs"
  by (simp add: torch_exp_def dexp_def)

lemma torch_sum_ones:
  "torch_sum (map (\<lambda>x. Dual 1 (g x)) xs) = Dual (real (length xs)) (sum_list (map g xs))"
  by (simp add: torch_sum_def comp_def sum_list_const_one)

lemma torch_divide_ones:
  "torch_divide (map (\<lambda>x. Dual 1 (g x)) xs) (Dual (real (length xs)) s) =
     Inr (map (\<lambda>x. Dual (1 / real (length xs))
                         ((g x * real (length xs) - s) / (real (length xs) * real (length xs)))) xs)"
  by (simp add: torch_divide_def ddiv_def)

text \<open>
  The weights in closed form: with a temperature other than zero, every weight has the
  value one over the number of energies, and its derivative is the centred derivative
  of its energy, scaled.
\<close>

lemma weights_of_energies:
  assumes "extEpot self states embeddings = Inr (U, Uh)" and "T self \<noteq> 0"
  shows "weights self states embeddings =
         Inr (map (\<lambda>x. Dual (1 / real (length U))
                     (- (tangent x - sum_list (map tangent U) / real (length U))
                        / (real (length U) * (T self * BOLTZMAN)))) U, Uh)"
proof -
  define c where "c = T self * BOLTZMAN"
  have c: "c \<noteq> 0" using assms(2) by (simp add: c_def BOLTZMAN_def)
  have Uh: "Uh = detach U" using assms(1) by (rule extEpot_detached)
  have u: "U_arg self U Uh = Inr (map (\<lambda>x. Dual 0 (- (tangent x / c))) U)"
    unfolding Uh using c by (rule U_arg_detach) (simp add: c_def)
  have w: "torch_divide (torch_exp (map (\<lambda>x. Dual 0 (- (tangent x / c))) U))
             (torch_sum (torch_exp (map (\<lambda>x. Dual 0 (- (tangent x / c))) U))) =
           Inr (map (\<lambda>x. Dual (1 / real (length U))
                     (- (tangent x - sum_list (map tangent U) / real (length U))
                        / (real (length U) * c))) U)"
  proof (cases "U = []")
    case True
    then show ?thesis by (simp add: torch_exp_def torch_divide_def)
  next
    case False
    then have n: "real (length U) \<noteq> 0" by simp
    have "(- (t / c) * real (length U) - - (s / c)) / (real (length U) * real (length U)) =
          - (t - s / real (length U)) / (real (length U) * c)" for t s
      using n c by (simp add: field_simps)
    then show ?thesis
      by (simp add: torch_exp_zero torch_sum_ones torch_divide_ones sum_list_neg_div)
  qed
  show ?thesis
    using assms(1) u w by (simp add: weights_def c_def Let_def)
qed

lemma weights_zero_temperature:
  assumes "extEpot self states embeddings = Inr (U, Uh)" and "T self = 0" and "U \<noteq> []"
  shows "weights self states embeddings = Inl NonFinite"
proof -
  have Uh: "Uh = detach U" using assms(1) by (rule extEpot_detached)
  show ?thesis
    using assms(1) U_arg_zero_temperature [OF assms(3) assms(2)]
    by (simp add: weights_def Uh)
qed


section \<open>The claims about the weights\<close>

text \<open>
  Claim C1, as amended. Whenever the coordinates of the evaluated states are within
  single precision, the potential returns energies for every sub-batch and the
  temperature is not zero, the estimator computes the log-weight of entry \<open>i\<close> as
  \<open>- (energies\<^sub>i - energies_detached\<^sub>i) / (T * k\<^sub>B)\<close> with \<open>k\<^sub>B = 0.001987191\<close>, where the
  energies are the ones the potential returns for the sub-batches, in order; the
  detached energies have the values of the energies and no derivative, so every
  log-weight has the value zero and every weight the value one over the number of
  energies, while each log-weight keeps the derivative of its own energy and each
  weight the centred derivative. The number of energies is
  \<open>replicas * (n div replicas)\<close> for a potential that returns one energy per state, which
  is the number \<open>n\<close> of states when the replica count divides it.
\<close>

theorem weights_zero_log_weight_uniform:
  assumes "potential_returns self states emb0 Es" and "T self \<noteq> 0"
  shows "BOLTZMAN = 0.001987191 \<and>
         extEpot self states (emb0 # rest) = Inr (concat Es, detach (concat Es)) \<and>
         (\<exists>u w. U_arg self (concat Es) (detach (concat Es)) = Inr u \<and>
                weights self states (emb0 # rest) = Inr (w, detach (concat Es)) \<and>
                length u = length (concat Es) \<and> length w = length (concat Es) \<and>
                (one_energy_per_state self \<and> emb0 \<noteq> [] \<longrightarrow>
                   length w = replicas self * (length states div replicas self)) \<and>
                (one_energy_per_state self \<and> emb0 \<noteq> [] \<and> replicas self dvd length states \<longrightarrow>
                   length w = length states) \<and>
                (\<forall>i < length (concat Es).
                   primal (u ! i) =
                     - ((primal (concat Es ! i) - primal (detach (concat Es) ! i))
                        / (T self * BOLTZMAN)) \<and>
                   primal (detach (concat Es) ! i) = primal (concat Es ! i) \<and>
                   tangent (detach (concat Es) ! i) = 0 \<and>
                   primal (u ! i) = 0 \<and>
                   tangent (u ! i) = - (tangent (concat Es ! i) / (T self * BOLTZMAN)) \<and>
                   primal (w ! i) = 1 / real (length (concat Es)) \<and>
                   tangent (w ! i) =
                     - (tangent (concat Es ! i)
                        - sum_list (map tangent (concat Es)) / real (length (concat Es)))
                       / (real (length (concat Es)) * (T self * BOLTZMAN))))"
proof -
  define U where "U = concat Es"
  have e: "extEpot self states (emb0 # rest) = Inr (U, detach U)"
    unfolding U_def using assms(1) by (rule extEpot_energies)
  have c: "T self * BOLTZMAN \<noteq> 0" using assms(2) by (simp add: BOLTZMAN_def)
  have u: "U_arg self U (detach U) =
           Inr (map (\<lambda>x. Dual 0 (- (tangent x / (T self * BOLTZMAN)))) U)"
    using c by (rule U_arg_detach) simp
  note w = weights_of_energies [OF e assms(2)]
  have n: "length U = replicas self * (length states div replicas self)"
    if "one_energy_per_state self" and "emb0 \<noteq> []"
    unfolding U_def using assms(1) that by (rule potential_returns_length)
  have m: "length U = length states"
    if "one_energy_per_state self" and "emb0 \<noteq> []" and "replicas self dvd length states"
    using n [OF that(1,2)] that(3) by simp
  show ?thesis
    unfolding U_def [symmetric] e u w using n m
    by (simp add: BOLTZMAN_def detach_def detach1_def)
qed

lemma ex_potential_returns_two:
  assumes "nnp self = ex_nnp" and "replicas self = 1"
  shows "potential_returns self [[[1, 2, 0]], [[3, 5, 0]]] [7] [[Dual 1 2, Dual 3 5]]"
  using assms by (simp add: potential_returns_def ex_nnp_def float32_overflow_def)

theorem weights_zero_log_weight_uniform_witness:
  "potential_returns ex_self [[[1, 2, 0]], [[3, 5, 0]]] [7] [[Dual 1 2, Dual 3 5]] \<and>
   T ex_self \<noteq> 0 \<and> one_energy_per_state ex_self \<and> [7 :: int] \<noteq> [] \<and>
   replicas ex_self dvd length [[[1, 2, 0]], [[3, 5, 0 :: real]]] \<and>
   extEpot ex_self [[[1, 2, 0]], [[3, 5, 0]]] [[7]] =
     Inr ([Dual 1 2, Dual 3 5], [Dual 1 0, Dual 3 0]) \<and>
   (\<exists>u w. U_arg ex_self [Dual 1 2, Dual 3 5] [Dual 1 0, Dual 3 0] = Inr u \<and>
          weights ex_self [[[1, 2, 0]], [[3, 5, 0]]] [[7]] = Inr (w, [Dual 1 0, Dual 3 0]) \<and>
          length w = length [[[1, 2, 0]], [[3, 5, 0 :: real]]] \<and>
          primal (u ! 0) = 0 \<and> primal (u ! 1) = 0 \<and>
          tangent (u ! 0) = - (2 / (350 * BOLTZMAN)) \<and>
          tangent (u ! 1) = - (5 / (350 * BOLTZMAN)) \<and>
          primal (w ! 0) = 1 / 2 \<and> primal (w ! 1) = 1 / 2 \<and>
          tangent (w ! 0) = - (2 - 7 / 2) / (2 * (350 * BOLTZMAN)))"
proof -
  have p: "potential_returns ex_self [[[1, 2, 0]], [[3, 5, 0]]] [7] [[Dual 1 2, Dual 3 5]]"
    by (rule ex_potential_returns_two) (simp_all add: ex_self_def)
  have t: "T ex_self \<noteq> 0" by (simp add: ex_self_def)
  have T: "T ex_self = 350" by (simp add: ex_self_def)
  have o: "one_energy_per_state ex_self"
    by (rule ex_one_energy_per_state) (simp add: ex_self_def)
  have d: "replicas ex_self dvd length [[[1, 2, 0]], [[3, 5, 0 :: real]]]"
    by (simp add: ex_self_def)
  have c: "concat [[Dual 1 2, Dual 3 5]] = [Dual 1 2, Dual 3 5]" by simp
  have h: "detach [Dual 1 2, Dual 3 5] = [Dual 1 0, Dual 3 0]"
    by (simp add: detach_def detach1_def)
  from weights_zero_log_weight_uniform [OF p t, of "[]"]
  obtain u w where
    "extEpot ex_self [[[1, 2, 0]], [[3, 5, 0]]] [[7]] =
       Inr ([Dual 1 2, Dual 3 5], [Dual 1 0, Dual 3 0])"
    "U_arg ex_self [Dual 1 2, Dual 3 5] [Dual 1 0, Dual 3 0] = Inr u"
    "weights ex_self [[[1, 2, 0]], [[3, 5, 0]]] [[7]] = Inr (w, [Dual 1 0, Dual 3 0])"
    "one_energy_per_state ex_self \<and> [7 :: int] \<noteq> [] \<and>
     replicas ex_self dvd length [[[1, 2, 0]], [[3, 5, 0 :: real]]] \<longrightarrow>
     length w = length [[[1, 2, 0]], [[3, 5, 0 :: real]]]"
    "\<forall>i < length [Dual 1 2, Dual 3 5].
       primal (u ! i) = 0 \<and>
       tangent (u ! i) = - (tangent ([Dual 1 2, Dual 3 5] ! i) / (T ex_self * BOLTZMAN)) \<and>
       primal (w ! i) = 1 / real (length [Dual 1 2, Dual 3 5]) \<and>
       tangent (w ! i) =
         - (tangent ([Dual 1 2, Dual 3 5] ! i)
            - sum_list (map tangent [Dual 1 2, Dual 3 5]) / real (length [Dual 1 2, Dual 3 5]))
           / (real (length [Dual 1 2, Dual 3 5]) * (T ex_self * BOLTZMAN))"
    unfolding c h by blast
  then show ?thesis
    using p t o d by (simp add: T All_less_Suc)
qed

lemma all_less_2: "(\<forall>i < (2 :: nat). P i) \<longleftrightarrow> P 0 \<and> P 1"
  by (auto simp: less_2_cases_iff)

lemma ex_potential_returns_three:
  assumes "nnp self = ex_nnp" and "replicas self = 2"
  shows "potential_returns self [[[1, 2, 0]], [[3, 5, 0]], [[4, 6, 0]]] [7]
           [[Dual 1 2], [Dual 3 5]]"
  using assms
  by (simp add: potential_returns_def ex_nnp_def float32_overflow_def all_less_2)

lemma ex_extEpot_two:
  assumes "nnp self = ex_nnp" and "replicas self = 1"
  shows "extEpot self [[[1, 2, 0]], [[3, 5, 0]]] [[7]] =
         Inr ([Dual 1 2, Dual 3 5], [Dual 1 0, Dual 3 0])"
  using extEpot_energies [OF ex_potential_returns_two [OF assms], of "[]"]
  by (simp add: detach_def detach1_def)

lemma ex_extEpot_three:
  assumes "nnp self = ex_nnp" and "replicas self = 2"
  shows "extEpot self [[[1, 2, 0]], [[3, 5, 0]], [[4, 6, 0]]] [[7]] =
         Inr ([Dual 1 2, Dual 3 5], [Dual 1 0, Dual 3 0])"
  using extEpot_energies [OF ex_potential_returns_three [OF assms], of "[]"]
  by (simp add: detach_def detach1_def)

lemma ex_weights_three:
  "weights (ex_self\<lparr>replicas := 2\<rparr>) [[[1, 2, 0]], [[3, 5, 0]], [[4, 6, 0]]] [[7]] =
   Inr ([Dual (1 / 2) (3 / (4 * (350 * BOLTZMAN))), Dual (1 / 2) (- 3 / (4 * (350 * BOLTZMAN)))],
        [Dual 1 0, Dual 3 0])"
proof -
  have t: "T (ex_self\<lparr>replicas := 2\<rparr>) \<noteq> 0" by (simp add: ex_self_def)
  have e: "extEpot (ex_self\<lparr>replicas := 2\<rparr>) [[[1, 2, 0]], [[3, 5, 0]], [[4, 6, 0]]] [[7]] =
           Inr ([Dual 1 2, Dual 3 5], [Dual 1 0, Dual 3 0])"
    by (rule ex_extEpot_three) (simp_all add: ex_self_def)
  show ?thesis
    unfolding weights_of_energies [OF e t] by (simp add: ex_self_def BOLTZMAN_def)
qed

lemma ex_weights_zero_temperature:
  "weights (ex_self\<lparr>T := 0\<rparr>) [[[1, 2, 0]], [[3, 5, 0]]] [[7]] = Inl NonFinite"
proof -
  have e: "extEpot (ex_self\<lparr>T := 0\<rparr>) [[[1, 2, 0]], [[3, 5, 0]]] [[7]] =
           Inr ([Dual 1 2, Dual 3 5], [Dual 1 0, Dual 3 0])"
    by (rule ex_extEpot_two) (simp_all add: ex_self_def)
  show ?thesis
    by (rule weights_zero_temperature [OF e]) simp_all
qed

text \<open>
  A coordinate beyond single precision: the cast gives an infinity, and no weight is
  a number.
\<close>

lemma ex_weights_overflow:
  "weights ex_self [[[1, 2, 0]], [[10 ^ 39, 5, 0]]] [[7]] = Inl NonFinite"
  by (simp add: weights_def extEpot_def ex_self_def extEpot_step_def slice_def to_float32_def
      float32_overflow_def)

text \<open>
  Three states and two replicas give two weights of one half, not three weights of one
  third; and with a temperature of zero no weight is a number.
\<close>

theorem weights_uniform_counterexample:
  "length [[[1, 2, 0]], [[3, 5, 0]], [[4, 6, 0 :: real]]] = 3 \<and>
   weights (ex_self\<lparr>replicas := 2\<rparr>) [[[1, 2, 0]], [[3, 5, 0]], [[4, 6, 0]]] [[7]] =
     Inr ([Dual (1 / 2) (3 / (4 * (350 * BOLTZMAN))), Dual (1 / 2) (- 3 / (4 * (350 * BOLTZMAN)))],
          [Dual 1 0, Dual 3 0]) \<and>
   weights (ex_self\<lparr>T := 0\<rparr>) [[[1, 2, 0]], [[3, 5, 0]]] [[7]] = Inl NonFinite"
  using ex_weights_three ex_weights_zero_temperature by simp

text \<open>The normalisation step on its own: the quotients are positive and sum to one.\<close>

lemma softmax_normalised:
  assumes "torch_divide (torch_exp u) (torch_sum (torch_exp u)) = Inr w" and "w \<noteq> []"
  shows "(\<forall>x \<in> set w. 0 < primal x) \<and> sum_list (map primal w) = 1"
proof -
  define S where "S = sum_list (map (\<lambda>x. exp (primal x)) u)"
  have u: "u \<noteq> []" using assms by (auto simp: torch_divide_def torch_exp_def split: if_splits)
  have nn: "0 \<le> sum_list (map (\<lambda>x. exp (primal x)) v)" for v :: tensor
    by (induction v) simp_all
  have "0 < sum_list (map (\<lambda>x. exp (primal x)) v)" if "v \<noteq> []" for v :: tensor
    using that nn by (cases v) (simp_all add: add_pos_nonneg)
  then have S: "0 < S" using u by (simp add: S_def)
  have w: "map primal w = map (\<lambda>x. exp (primal x) / S) u"
    using assms(1) S
    by (auto simp: torch_divide_def torch_exp_def torch_sum_def ddiv_def dexp_def comp_def S_def
        split: if_splits)
  have "\<forall>y \<in> set (map primal w). 0 < y" unfolding w using S by auto
  moreover have "sum_list (map primal w) = 1"
    unfolding w sum_list_div using S by (simp add: S_def)
  ultimately show ?thesis by auto
qed


lemma weights_normalised:
  assumes "weights self states embeddings = Inr (w, U_ext_hat)" and "w \<noteq> []"
  shows "(\<forall>i < length w. 0 \<le> primal (w ! i)) \<and> sum_list (map primal w) = 1"
proof -
  from assms(1) obtain u where
    "torch_divide (torch_exp u) (torch_sum (torch_exp u)) = Inr w"
    by (auto simp: weights_def Let_def split: sum.splits)
  from softmax_normalised [OF this assms(2)] show ?thesis
    by (auto simp: less_imp_le)
qed

text \<open>
  Claim C2, as amended. Whenever the coordinates of the evaluated states are within
  single precision, the potential returns energies for every sub-batch, at least one
  energy in all, and the temperature is not zero, the weight computation returns a
  non-empty weight vector, one weight per energy, whose components are at least zero
  and sum to one.
\<close>

theorem weights_nonnegative_sum_one:
  assumes "potential_returns self states emb0 Es" and "T self \<noteq> 0" and "concat Es \<noteq> []"
  shows "\<exists>w. weights self states (emb0 # rest) = Inr (w, detach (concat Es)) \<and>
             w \<noteq> [] \<and> length w = length (concat Es) \<and>
             (\<forall>i < length w. 0 \<le> primal (w ! i)) \<and> sum_list (map primal w) = 1"
proof -
  have e: "extEpot self states (emb0 # rest) = Inr (concat Es, detach (concat Es))"
    using assms(1) by (rule extEpot_energies)
  from weights_of_energies [OF e assms(2)] obtain w where
    w: "weights self states (emb0 # rest) = Inr (w, detach (concat Es))"
    and l: "length w = length (concat Es)"
    by simp
  have ne: "w \<noteq> []" using l assms(3) by auto
  from weights_normalised [OF w ne] w ne l show ?thesis by blast
qed

lemma ex_weights_two:
  "weights ex_self [[[1, 2, 0]], [[3, 5, 0]]] [[7]] =
   Inr ([Dual (1 / 2) (3 / (4 * (350 * BOLTZMAN))), Dual (1 / 2) (- 3 / (4 * (350 * BOLTZMAN)))],
        [Dual 1 0, Dual 3 0])"
proof -
  have t: "T ex_self \<noteq> 0" by (simp add: ex_self_def)
  have e: "extEpot ex_self [[[1, 2, 0]], [[3, 5, 0]]] [[7]] =
           Inr ([Dual 1 2, Dual 3 5], [Dual 1 0, Dual 3 0])"
    by (rule ex_extEpot_two) (simp_all add: ex_self_def)
  show ?thesis
    unfolding weights_of_energies [OF e t]
    by (simp add: ex_self_def BOLTZMAN_def)
qed

theorem weights_nonnegative_sum_one_witness:
  "potential_returns ex_self [[[1, 2, 0]], [[3, 5, 0]]] [7] [[Dual 1 2, Dual 3 5]] \<and>
   T ex_self \<noteq> 0 \<and> concat [[Dual 1 2, Dual 3 5]] \<noteq> [] \<and>
   (\<exists>w. weights ex_self [[[1, 2, 0]], [[3, 5, 0]]] [[7]] = Inr (w, [Dual 1 0, Dual 3 0]) \<and>
        length w = 2 \<and> 0 \<le> primal (w ! 0) \<and> 0 \<le> primal (w ! 1) \<and>
        sum_list (map primal w) = 1)"
proof -
  have p: "potential_returns ex_self [[[1, 2, 0]], [[3, 5, 0]]] [7] [[Dual 1 2, Dual 3 5]]"
    by (rule ex_potential_returns_two) (simp_all add: ex_self_def)
  have t: "T ex_self \<noteq> 0" by (simp add: ex_self_def)
  have n: "concat [[Dual 1 2, Dual 3 5]] \<noteq> []" by simp
  from weights_nonnegative_sum_one [OF p t n, of "[]"] obtain w where
    "weights ex_self [[[1, 2, 0]], [[3, 5, 0]]] [[7]] =
       Inr (w, detach (concat [[Dual 1 2, Dual 3 5]]))"
    "length w = length (concat [[Dual 1 2, Dual 3 5]])"
    "\<forall>i < length w. 0 \<le> primal (w ! i)" "sum_list (map primal w) = 1"
    by blast
  then show ?thesis
    using p t by (auto simp: detach_def detach1_def)
qed

text \<open>
  Two states and three replicas: every sub-batch is empty, the weight vector is empty
  and sums to zero; and with a temperature of zero no weight is a number.
\<close>

lemma ex_weights_empty:
  "weights (ex_self\<lparr>replicas := 3\<rparr>) [[[1, 2, 0]], [[3, 5, 0]]] [[7]] = Inr ([], [])"
  by (simp add: weights_def extEpot_def ex_self_def extEpot_step_def slice_def to_float32_def
      ex_nnp_def detach_def U_arg_def torch_subtract_def broadcast2_def torch_divide_def
      torch_neg_def torch_exp_def upt_rec)

lemma ex_weights_zero_temperature_one_state:
  "weights (ex_self\<lparr>T := 0\<rparr>) [[[1, 2, 0]]] [[7]] = Inl NonFinite"
proof -
  have "potential_returns (ex_self\<lparr>T := 0\<rparr>) [[[1, 2, 0]]] [7] [[Dual 1 2]]"
    by (simp add: potential_returns_def ex_self_def ex_nnp_def float32_overflow_def)
  from extEpot_energies [OF this, of "[]"]
  have e: "extEpot (ex_self\<lparr>T := 0\<rparr>) [[[1, 2, 0]]] [[7]] = Inr ([Dual 1 2], detach [Dual 1 2])"
    by simp
  show ?thesis
    by (rule weights_zero_temperature [OF e]) simp_all
qed

theorem weights_sum_one_counterexample:
  "weights (ex_self\<lparr>replicas := 3\<rparr>) [[[1, 2, 0]], [[3, 5, 0]]] [[7]] = Inr ([], []) \<and>
   sum_list (map primal ([] :: tensor)) = 0 \<and>
   weights (ex_self\<lparr>T := 0\<rparr>) [[[1, 2, 0]]] [[7]] = Inl NonFinite"
  using ex_weights_empty ex_weights_zero_temperature_one_state by simp

section \<open>Facts about the effective sample size\<close>

lemma torch_multiply_same:
  "torch_multiply xs (map f xs) = Inr (map (\<lambda>x. dmul x (f x)) xs)"
  by (simp add: torch_multiply_def broadcast2_def zip_map2 zip_same_conv_map)

lemma effectiven_positive:
  assumes "\<forall>x \<in> set ws. 0 < primal x"
  shows "effectiven ws =
         Inr (Dual (exp (- sum_list (map (\<lambda>x. primal x * ln (primal x)) ws))) 0)"
proof -
  have "\<not> (\<exists>x \<in> set ws. primal x \<le> 0)" using assms by (auto simp: not_le)
  then have l: "torch_log ws = Inr (map dlog ws)" by (simp add: torch_log_def)
  show ?thesis
    by (simp add: effectiven_def l torch_multiply_same torch_sum_def comp_def dmul_def dlog_def
        dneg_def dexp_def detach1_def)
qed

lemma effectiven_nonpositive:
  "\<exists>x \<in> set ws. primal x \<le> 0 \<Longrightarrow> effectiven ws = Inl NonFinite"
  by (simp add: effectiven_def torch_log_def)

lemma sum_list_const: "sum_list (map (\<lambda>x. c::real) xs) = real (length xs) * c"
  by (induction xs) (simp_all add: algebra_simps)

lemma effectiven_uniform:
  assumes "ws \<noteq> []" and "\<forall>x \<in> set ws. primal x = 1 / real (length ws)"
  shows "effectiven ws = Inr (Dual (real (length ws)) 0)"
proof -
  define n where "n = real (length ws)"
  have n: "0 < n" using assms(1) by (simp add: n_def)
  have pos: "\<forall>x \<in> set ws. 0 < primal x" using assms(2) n by (simp add: n_def)
  have "map (\<lambda>x. primal x * ln (primal x)) ws = map (\<lambda>x. (1 / n) * ln (1 / n)) ws"
    using assms(2) by (simp add: n_def)
  then have "sum_list (map (\<lambda>x. primal x * ln (primal x)) ws) =
             sum_list (map (\<lambda>x. (1 / n) * ln (1 / n)) ws)"
    by (simp only:)
  also have "\<dots> = n * ((1 / n) * ln (1 / n))"
    by (simp only: sum_list_const n_def)
  also have "\<dots> = - ln n" using n by (simp add: ln_div)
  finally show ?thesis
    using n by (simp add: effectiven_positive [OF pos] n_def)
qed

lemma elem_le_sum_list:
  fixes xs :: "real list"
  assumes "\<forall>y \<in> set xs. 0 \<le> y" and "x \<in> set xs"
  shows "x \<le> sum_list xs"
  using assms
proof (induction xs)
  case Nil
  then show ?case by simp
next
  case (Cons a xs)
  have "0 \<le> sum_list xs" using Cons.prems(1) by (simp add: sum_list_nonneg)
  moreover have "0 \<le> a" using Cons.prems(1) by simp
  ultimately show ?case using Cons by (cases "x = a") (auto intro: add_increasing)
qed

lemma entropy_nonneg:
  fixes ps :: "real list"
  assumes "\<forall>p \<in> set ps. 0 < p" and "sum_list ps = 1"
  shows "0 \<le> - sum_list (map (\<lambda>p. p * ln p) ps)"
proof -
  have "p * ln p \<le> 0" if "p \<in> set ps" for p
  proof -
    have "0 < p" using assms(1) that by simp
    moreover have "p \<le> 1"
      using elem_le_sum_list [of ps p] assms that by (auto simp: less_imp_le)
    ultimately show ?thesis by (simp add: mult_nonneg_nonpos)
  qed
  then have "sum_list (map (\<lambda>p. p * ln p) ps) \<le> 0"
    by (intro sum_list_nonpos) auto
  then show ?thesis by simp
qed

lemma entropy_le_ln_length:
  fixes ps :: "real list"
  assumes "\<forall>p \<in> set ps. 0 < p" and "sum_list ps = 1"
  shows "- sum_list (map (\<lambda>p. p * ln p) ps) \<le> ln (real (length ps))"
proof -
  define n where "n = real (length ps)"
  have "ps \<noteq> []" using assms(2) by auto
  then have n: "0 < n" by (simp add: n_def)
  have pt: "- (p * ln p) - p * ln n \<le> 1 / n - p" if "0 < p" for p
  proof -
    have "ln (1 / (p * n)) \<le> 1 / (p * n) - 1"
      using that n by (intro ln_le_minus_one) simp
    then have a: "p * ln (1 / (p * n)) \<le> p * (1 / (p * n) - 1)"
      using that by (simp add: mult_left_mono)
    have b: "ln (1 / (p * n)) = - ln p - ln n"
      using that n by (simp add: ln_div ln_mult)
    have c: "p * (1 / (p * n) - 1) = 1 / n - p"
      using that n by (simp add: field_simps)
    from a have "p * (- ln p - ln n) \<le> 1 / n - p"
      unfolding b c .
    then show ?thesis by (simp add: algebra_simps)
  qed
  have "sum_list (map (\<lambda>p. - (p * ln p) - p * ln n) ps) \<le> sum_list (map (\<lambda>p. 1 / n - p) ps)"
    using assms(1) pt by (intro sum_list_mono) simp
  moreover have "sum_list (map (\<lambda>p. - (p * ln p) - p * ln n) ps) =
                 - sum_list (map (\<lambda>p. p * ln p) ps) - sum_list ps * ln n"
    by (induction ps) (simp_all add: algebra_simps)
  moreover have "sum_list (map (\<lambda>p. 1 / n - p) ps) = real (length ps) * (1 / n) - sum_list ps"
    by (induction ps) (simp_all add: algebra_simps)
  ultimately show ?thesis
    using assms(2) n by (simp add: n_def)
qed


section \<open>The claims about the effective sample size\<close>

text \<open>
  Claim C8, as amended. For every weight vector with strictly positive components that
  sum to one, the effective sample size \<open>exp (- \<Sum> w\<^sub>i ln w\<^sub>i)\<close> is returned without
  derivative and lies between one and the number of states; it equals the number of
  states when the weights are uniform, and one when there is a single state.
\<close>

theorem effectiven_range:
  assumes "\<forall>w \<in> set ws. 0 < primal w" and "sum_list (map primal ws) = 1"
  shows "\<exists>neff. effectiven ws = Inr neff \<and> tangent neff = 0 \<and>
           primal neff = exp (- sum_list (map (\<lambda>w. primal w * ln (primal w)) ws)) \<and>
           1 \<le> primal neff \<and> primal neff \<le> real (length ws) \<and>
           ((\<forall>w \<in> set ws. primal w = 1 / real (length ws)) \<longrightarrow>
              primal neff = real (length ws)) \<and>
           (length ws = 1 \<longrightarrow> primal neff = 1)"
proof -
  define H where "H = - sum_list (map (\<lambda>p. p * ln p) (map primal ws))"
  have ne: "ws \<noteq> []" using assms(2) by auto
  have pos: "\<forall>p \<in> set (map primal ws). 0 < p" using assms(1) by simp
  have H: "H = - sum_list (map (\<lambda>w. primal w * ln (primal w)) ws)"
    by (simp add: H_def comp_def)
  have lo: "0 \<le> H" unfolding H_def using pos assms(2) by (rule entropy_nonneg)
  have "H \<le> ln (real (length (map primal ws)))"
    unfolding H_def using pos assms(2) by (rule entropy_le_ln_length)
  then have hi: "H \<le> ln (real (length ws))" by simp
  have e: "effectiven ws = Inr (Dual (exp H) 0)"
    unfolding H by (rule effectiven_positive [OF assms(1)])
  have b1: "1 \<le> exp H" using lo by simp
  have "exp H \<le> exp (ln (real (length ws)))" using hi by simp
  then have b2: "exp H \<le> real (length ws)" using ne by simp
  have u: "exp H = real (length ws)" if "\<forall>w \<in> set ws. primal w = 1 / real (length ws)"
    using effectiven_uniform [OF ne that] e by simp
  have o: "exp H = 1" if "length ws = 1"
    using b1 b2 that by simp
  show ?thesis
    using e b1 b2 u o H by simp
qed

theorem effectiven_range_witness:
  "0 < primal (Dual (1 / 2) 3) \<and> 0 < primal (Dual (1 / 2) 0) \<and>
   sum_list (map primal [Dual (1 / 2) 3, Dual (1 / 2) 0]) = 1 \<and>
   primal (Dual (1 / 2) 3) = 1 / real (length [Dual (1 / 2) 3, Dual (1 / 2) 0]) \<and>
   primal (Dual (1 / 2) 0) = 1 / real (length [Dual (1 / 2) 3, Dual (1 / 2) 0]) \<and>
   effectiven [Dual (1 / 2) 3, Dual (1 / 2) 0] = Inr (Dual 2 0) \<and>
   0 < primal (Dual 1 5) \<and> sum_list (map primal [Dual 1 5]) = 1 \<and>
   length [Dual 1 5] = 1 \<and> effectiven [Dual 1 5] = Inr (Dual 1 0)"
proof -
  have a: "\<forall>w \<in> set [Dual (1 / 2) 3, Dual (1 / 2) 0]. 0 < primal w" by simp
  have b: "sum_list (map primal [Dual (1 / 2) 3, Dual (1 / 2) 0]) = 1" by simp
  have c: "\<forall>w \<in> set [Dual 1 5]. 0 < primal w" by simp
  have d: "sum_list (map primal [Dual 1 5]) = 1" by simp
  from effectiven_range [OF a b] have "effectiven [Dual (1 / 2) 3, Dual (1 / 2) 0] = Inr (Dual 2 0)"
    by (auto simp: dual.expand)
  moreover from effectiven_range [OF c d] have "effectiven [Dual 1 5] = Inr (Dual 1 0)"
    by (auto simp: dual.expand)
  ultimately show ?thesis by simp
qed

text \<open>
  With all the weight on one of two states the logarithm of the zero weight is minus
  infinity and its product with zero is not a number: the result is not one.
\<close>

theorem effectiven_one_hot_counterexample:
  "0 \<le> primal (Dual 1 0) \<and> 0 \<le> primal (Dual 0 0) \<and>
   sum_list (map primal [Dual 1 0, Dual 0 0]) = 1 \<and>
   effectiven [Dual 1 0, Dual 0 0] = Inl NonFinite"
  by (simp add: effectiven_def torch_log_def)

text \<open>
  Claim C4, as amended. The weights do not follow the energies: whenever the
  coordinates of the evaluated states are within single precision, the potential
  returns energies for every sub-batch, at least one in all, and the temperature is
  not zero, then whatever these energies are, every weight has the value one over the
  number of weights and the effective sample size of the weights is the number of
  weights. The number of weights is \<open>replicas * (n div replicas)\<close> for a potential that
  returns one energy per state, which is the number \<open>n\<close> of states when the replica
  count divides it.
\<close>

theorem weights_ignore_energies:
  assumes "potential_returns self states emb0 Es" and "T self \<noteq> 0" and "concat Es \<noteq> []"
  shows "\<exists>w neff. weights self states (emb0 # rest) = Inr (w, detach (concat Es)) \<and>
           length w = length (concat Es) \<and>
           (one_energy_per_state self \<and> emb0 \<noteq> [] \<longrightarrow>
              length w = replicas self * (length states div replicas self)) \<and>
           (one_energy_per_state self \<and> emb0 \<noteq> [] \<and> replicas self dvd length states \<longrightarrow>
              length w = length states) \<and>
           (\<forall>i < length w. primal (w ! i) = 1 / real (length w)) \<and>
           effectiven w = Inr neff \<and> primal neff = real (length w)"
proof -
  define U where "U = concat Es"
  define w where
    "w = map (\<lambda>x. Dual (1 / real (length U))
                 (- (tangent x - sum_list (map tangent U) / real (length U))
                    / (real (length U) * (T self * BOLTZMAN)))) U"
  have e: "extEpot self states (emb0 # rest) = Inr (U, detach U)"
    unfolding U_def using assms(1) by (rule extEpot_energies)
  have ws: "weights self states (emb0 # rest) = Inr (w, detach U)"
    unfolding w_def by (rule weights_of_energies [OF e assms(2)])
  have len: "length w = length U" by (simp add: w_def)
  have ne: "w \<noteq> []" using assms(3) by (simp add: w_def U_def)
  have un: "\<forall>x \<in> set w. primal x = 1 / real (length w)" by (auto simp: w_def)
  have n: "length w = replicas self * (length states div replicas self)"
    if "one_energy_per_state self" and "emb0 \<noteq> []"
    using potential_returns_length [OF assms(1) that] len by (simp add: U_def)
  have m: "length w = length states"
    if "one_energy_per_state self" and "emb0 \<noteq> []" and "replicas self dvd length states"
    using n [OF that(1,2)] that(3) by simp
  have "effectiven w = Inr (Dual (real (length w)) 0)"
    using ne un by (rule effectiven_uniform)
  then show ?thesis using ws len un n m by (auto simp: U_def)
qed

lemma ex_potential_returns_four:
  assumes "\<bar>e\<bar> < float32_overflow"
  shows "potential_returns ex_self [[[0, 0, 0]], [[0, 0, 0]], [[0, 0, 0]], [[e, 0, 0]]] [7]
           [[Dual 0 0, Dual 0 0, Dual 0 0, Dual e 0]]"
  using assms by (simp add: potential_returns_def ex_self_def ex_nnp_def float32_overflow_def)

lemma ex_weights_four:
  assumes "\<bar>e\<bar> < float32_overflow"
  shows "weights ex_self [[[0, 0, 0]], [[0, 0, 0]], [[0, 0, 0]], [[e, 0, 0]]] [[7]] =
         Inr ([Dual (1 / 4) 0, Dual (1 / 4) 0, Dual (1 / 4) 0, Dual (1 / 4) 0],
              [Dual 0 0, Dual 0 0, Dual 0 0, Dual e 0])"
proof -
  have t: "T ex_self \<noteq> 0" by (simp add: ex_self_def)
  from extEpot_energies [OF ex_potential_returns_four [OF assms], of "[]"]
  have e: "extEpot ex_self [[[0, 0, 0]], [[0, 0, 0]], [[0, 0, 0]], [[e, 0, 0]]] [[7]] =
           Inr ([Dual 0 0, Dual 0 0, Dual 0 0, Dual e 0],
                [Dual 0 0, Dual 0 0, Dual 0 0, Dual e 0])"
    by (simp add: detach_def detach1_def)
  show ?thesis
    unfolding weights_of_energies [OF e t] by simp
qed

lemma ex_effectiven_four:
  "effectiven [Dual (1 / 4) 0, Dual (1 / 4) 0, Dual (1 / 4) 0, Dual (1 / 4) 0] = Inr (Dual 4 0)"
  using effectiven_uniform [of "[Dual (1 / 4) 0, Dual (1 / 4) 0, Dual (1 / 4) 0, Dual (1 / 4) 0]"]
  by simp

theorem weights_ignore_energies_witness:
  "potential_returns ex_self [[[0, 0, 0]], [[0, 0, 0]], [[0, 0, 0]], [[- 100000, 0, 0]]] [7]
     [[Dual 0 0, Dual 0 0, Dual 0 0, Dual (- 100000) 0]] \<and>
   T ex_self \<noteq> 0 \<and> concat [[Dual 0 0, Dual 0 0, Dual 0 0, Dual (- 100000) 0]] \<noteq> [] \<and>
   one_energy_per_state ex_self \<and> [7 :: int] \<noteq> [] \<and>
   replicas ex_self dvd
     length [[[0, 0, 0]], [[0, 0, 0]], [[0, 0, 0]], [[- 100000, 0, 0 :: real]]] \<and>
   (\<exists>w neff. weights ex_self [[[0, 0, 0]], [[0, 0, 0]], [[0, 0, 0]], [[- 100000, 0, 0]]] [[7]] =
               Inr (w, [Dual 0 0, Dual 0 0, Dual 0 0, Dual (- 100000) 0]) \<and>
             length w = length [[[0, 0, 0]], [[0, 0, 0]], [[0, 0, 0]], [[- 100000, 0, 0 :: real]]] \<and>
             length w = 4 \<and> primal (w ! 3) = 1 / 4 \<and>
             effectiven w = Inr neff \<and> primal neff = 4)"
proof -
  have p: "potential_returns ex_self [[[0, 0, 0]], [[0, 0, 0]], [[0, 0, 0]], [[- 100000, 0, 0]]]
             [7] [[Dual 0 0, Dual 0 0, Dual 0 0, Dual (- 100000) 0]]"
    by (rule ex_potential_returns_four) (simp add: float32_overflow_def)
  have t: "T ex_self \<noteq> 0" by (simp add: ex_self_def)
  have n: "concat [[Dual 0 0, Dual 0 0, Dual 0 0, Dual (- 100000) 0]] \<noteq> []" by simp
  have o: "one_energy_per_state ex_self"
    by (rule ex_one_energy_per_state) (simp add: ex_self_def)
  have d: "replicas ex_self dvd
           length [[[0, 0, 0]], [[0, 0, 0]], [[0, 0, 0]], [[- 100000, 0, 0 :: real]]]"
    by (simp add: ex_self_def)
  have h: "detach (concat [[Dual 0 0, Dual 0 0, Dual 0 0, Dual (- 100000) 0]]) =
           [Dual 0 0, Dual 0 0, Dual 0 0, Dual (- 100000) 0]"
    by (simp add: detach_def detach1_def)
  from weights_ignore_energies [OF p t n, of "[]"]
  obtain w neff where w:
    "weights ex_self [[[0, 0, 0]], [[0, 0, 0]], [[0, 0, 0]], [[- 100000, 0, 0]]] [[7]] =
       Inr (w, [Dual 0 0, Dual 0 0, Dual 0 0, Dual (- 100000) 0])"
    "length w = length (concat [[Dual 0 0, Dual 0 0, Dual 0 0, Dual (- 100000) 0]])"
    "\<forall>i < length w. primal (w ! i) = 1 / real (length w)"
    "effectiven w = Inr neff" "primal neff = real (length w)"
    unfolding h by blast
  have l: "length w = 4" using w(2) by simp
  have "primal (w ! 3) = 1 / 4" using w(3) l by simp
  moreover have "primal neff = 4" using w(5) l by simp
  ultimately show ?thesis using p t o d w(1,4) l by auto
qed

text \<open>
  Four states at temperature 350: with energies \<open>[0, 0, 0, 100000]\<close> the fourth weight
  is a quarter, not about zero, and the effective sample size is four, not about
  three; with energies \<open>[0, 0, 0, -100000]\<close> the fourth weight is a quarter, not
  about one.
\<close>

theorem weights_follow_energies_counterexample:
  "T ex_self = 350 \<and>
   weights ex_self [[[0, 0, 0]], [[0, 0, 0]], [[0, 0, 0]], [[100000, 0, 0]]] [[7]] =
     Inr ([Dual (1 / 4) 0, Dual (1 / 4) 0, Dual (1 / 4) 0, Dual (1 / 4) 0],
          [Dual 0 0, Dual 0 0, Dual 0 0, Dual 100000 0]) \<and>
   weights ex_self [[[0, 0, 0]], [[0, 0, 0]], [[0, 0, 0]], [[- 100000, 0, 0]]] [[7]] =
     Inr ([Dual (1 / 4) 0, Dual (1 / 4) 0, Dual (1 / 4) 0, Dual (1 / 4) 0],
          [Dual 0 0, Dual 0 0, Dual 0 0, Dual (- 100000) 0]) \<and>
   effectiven [Dual (1 / 4) 0, Dual (1 / 4) 0, Dual (1 / 4) 0, Dual (1 / 4) 0] = Inr (Dual 4 0)"
proof -
  have a: "\<bar>100000 :: real\<bar> < float32_overflow" by (simp add: float32_overflow_def)
  have b: "\<bar>- 100000 :: real\<bar> < float32_overflow" by (simp add: float32_overflow_def)
  show ?thesis
    using ex_weights_four [OF a] ex_weights_four [OF b] ex_effectiven_four
    by (simp add: ex_self_def)
qed

section \<open>Facts about the weighted observable\<close>

lemma extEpot_step_metric_update:
  "extEpot_step (self\<lparr>metric := m\<rparr>) = extEpot_step self"
  by (intro ext) (simp add: extEpot_step_def Let_def cong: sum.case_cong)

lemma extEpot_loop_metric_update:
  "extEpot_loop (self\<lparr>metric := m\<rparr>) states emb0 bn is acc =
   extEpot_loop self states emb0 bn is acc"
  by (induction "is" arbitrary: acc)
     (simp_all add: extEpot_step_metric_update cong: sum.case_cong)

lemma extEpot_metric_update:
  "extEpot (self\<lparr>metric := m\<rparr>) states embeddings = extEpot self states embeddings"
  by (simp add: extEpot_def extEpot_loop_metric_update cong: list.case_cong)

lemma U_arg_metric_update:
  "U_arg (self\<lparr>metric := m\<rparr>) = U_arg self"
  by (intro ext) (simp add: U_arg_def cong: sum.case_cong)

lemma weights_metric_update [simp]:
  "weights (self\<lparr>metric := m\<rparr>) states embeddings = weights self states embeddings"
  by (simp add: weights_def extEpot_metric_update U_arg_metric_update
      split: sum.splits prod.splits)

lemma torch_multiply_same_length:
  "length xs = length ys \<Longrightarrow> torch_multiply xs ys = Inr (map2 dmul xs ys)"
  by (simp add: torch_multiply_def broadcast2_def)

lemma clamp_is_min: "(if ob > (10000000::real) then 10000000 else ob) = min ob 10000000"
  by (simp add: min_def)

lemma sum_list_map2_const:
  "length ws = length ss \<Longrightarrow>
   sum_list (map primal (map2 dmul ws (map const (map f ss)))) =
     sum_list (map2 (\<lambda>w s. primal w * f s) ws ss) \<and>
   sum_list (map tangent (map2 dmul ws (map const (map f ss)))) =
     sum_list (map2 (\<lambda>w s. tangent w * f s) ws ss)"
  by (induction ws ss rule: list_induct2) (simp_all add: dmul_def const_def)

text \<open>
  Claim C5. When there is one weight per state, \<^verbatim>\<open>compute_we\<close> returns the sum of the
  weights times the metric values cut off at \<open>10\<^sup>7\<close>, with the derivative passing through
  the weights only; so it returns the same for the metric and for the metric cut off
  at \<open>10\<^sup>7\<close>: a metric value above the bound contributes as the bound itself.
\<close>

theorem compute_we_clamps_metric:
  assumes "weights self states embeddings = Inr (ws, U_ext_hat)"
    and "length ws = length states" and "states \<noteq> []"
  shows "\<exists>w_e avg. compute_we self states crystal embeddings neff_threshold = Inr (w_e, avg) \<and>
           primal w_e =
             sum_list (map2 (\<lambda>w state. primal w * min (metric self state crystal) 10000000)
                         ws states) \<and>
           tangent w_e =
             sum_list (map2 (\<lambda>w state. tangent w * min (metric self state crystal) 10000000)
                         ws states) \<and>
           compute_we (self\<lparr>metric := \<lambda>state crystal. min (metric self state crystal) 10000000\<rparr>)
             states crystal embeddings neff_threshold = Inr (w_e, avg)"
proof -
  define f where "f = (\<lambda>state. min (metric self state crystal) 10000000)"
  have len: "length ws = length (map const (map f states))" using assms(2) by simp
  have m: "torch_multiply ws (map const (map f states)) =
           Inr (map2 dmul ws (map const (map f states)))"
    using len by (rule torch_multiply_same_length)
  have mm: "min (min x 10000000) 10000000 = min x (10000000::real)" for x by simp
  have 1: "compute_we self states crystal embeddings neff_threshold =
           Inr (torch_sum (map2 dmul ws (map const (map f states))),
                PyFloat (sum_list (map f states) / real (length states)))"
    using assms(1,3) m by (simp add: compute_we_def Let_def clamp_is_min comp_def f_def)
  have 2: "compute_we (self\<lparr>metric := \<lambda>state crystal. min (metric self state crystal) 10000000\<rparr>)
             states crystal embeddings neff_threshold =
           Inr (torch_sum (map2 dmul ws (map const (map f states))),
                PyFloat (sum_list (map f states) / real (length states)))"
    using assms(1,3) m by (simp add: compute_we_def Let_def clamp_is_min comp_def f_def mm)
  show ?thesis
    unfolding 1 2 using sum_list_map2_const [OF assms(2), of f]
    by (simp add: torch_sum_def f_def)
qed

lemma ex_compute_we_two:
  "compute_we ex_self [[[1, 2, 0]], [[30000000, 5, 0]]] [[0, 0, 0]] [[7]] t =
   Inr (Dual (10000001 / 2) (- (29999997 / (4 * (350 * BOLTZMAN)))), PyFloat (10000001 / 2))"
proof -
  have t: "T ex_self \<noteq> 0" by (simp add: ex_self_def)
  have e: "extEpot ex_self [[[1, 2, 0]], [[30000000, 5, 0]]] [[7]] =
           Inr ([Dual 1 2, Dual 30000000 5], [Dual 1 0, Dual 30000000 0])"
    by (simp add: extEpot_def ex_self_def extEpot_step_def slice_def to_float32_def
        float32_overflow_def ex_nnp_def detach_def detach1_def)
  show ?thesis
    unfolding compute_we_def weights_of_energies [OF e t]
    by (simp add: ex_self_def ex_metric_def torch_multiply_def broadcast2_def dmul_def const_def
        torch_sum_def BOLTZMAN_def)
qed

lemma ex_weights_clamp:
  "weights ex_self [[[1, 2, 0]], [[30000000, 5, 0]]] [[7]] =
   Inr ([Dual (1 / 2) (3 / (4 * (350 * BOLTZMAN))), Dual (1 / 2) (- 3 / (4 * (350 * BOLTZMAN)))],
        [Dual 1 0, Dual 30000000 0])"
proof -
  have t: "T ex_self \<noteq> 0" by (simp add: ex_self_def)
  have e: "extEpot ex_self [[[1, 2, 0]], [[30000000, 5, 0]]] [[7]] =
           Inr ([Dual 1 2, Dual 30000000 5], [Dual 1 0, Dual 30000000 0])"
    by (simp add: extEpot_def ex_self_def extEpot_step_def slice_def to_float32_def
        float32_overflow_def ex_nnp_def detach_def detach1_def)
  show ?thesis
    unfolding weights_of_energies [OF e t] by (simp add: ex_self_def BOLTZMAN_def)
qed

theorem compute_we_clamps_metric_witness:
  "weights ex_self [[[1, 2, 0]], [[30000000, 5, 0]]] [[7]] =
     Inr ([Dual (1 / 2) (3 / (4 * (350 * BOLTZMAN))), Dual (1 / 2) (- 3 / (4 * (350 * BOLTZMAN)))],
          [Dual 1 0, Dual 30000000 0]) \<and>
   length [Dual (1 / 2) (3 / (4 * (350 * BOLTZMAN))), Dual (1 / 2) (- 3 / (4 * (350 * BOLTZMAN)))] =
     length [[[1, 2, 0]], [[30000000, 5, 0 :: real]]] \<and>
   [[[1, 2, 0]], [[30000000, 5, 0 :: real]]] \<noteq> [] \<and>
   metric ex_self [[30000000, 5, 0]] [[0, 0, 0]] = 30000000 \<and>
   (\<exists>w_e avg. compute_we ex_self [[[1, 2, 0]], [[30000000, 5, 0]]] [[0, 0, 0]] [[7]] None =
                 Inr (w_e, avg) \<and>
               primal w_e = 1 / 2 * 1 + 1 / 2 * 10000000)"
proof -
  have l: "length [Dual (1 / 2) (3 / (4 * (350 * BOLTZMAN))),
                   Dual (1 / 2) (- 3 / (4 * (350 * BOLTZMAN)))] =
           length [[[1, 2, 0]], [[30000000, 5, 0 :: real]]]" by simp
  have n: "[[[1, 2, 0]], [[30000000, 5, 0 :: real]]] \<noteq> []" by simp
  from compute_we_clamps_metric [OF ex_weights_clamp l n, of "[[0, 0, 0]]" None]
  obtain w_e avg where
    "compute_we ex_self [[[1, 2, 0]], [[30000000, 5, 0]]] [[0, 0, 0]] [[7]] None = Inr (w_e, avg)"
    "primal w_e = 1 / 2 * 1 + 1 / 2 * 10000000"
    by (auto simp: ex_self_def ex_metric_def)
  then show ?thesis
    using ex_weights_clamp by (auto simp: ex_self_def ex_metric_def)
qed

text \<open>
  Claim C10. The argument \<open>neff_threshold\<close> has no influence on the result of
  \<^verbatim>\<open>compute_we\<close>: any two values give the same weighted observable and the same
  average metric (or the same failure).
\<close>

theorem compute_we_ignores_neff_threshold:
  "compute_we self states crystal embeddings threshold1 =
   compute_we self states crystal embeddings threshold2"
  by (simp add: compute_we_def)

theorem compute_we_ignores_neff_threshold_witness:
  "compute_we ex_self [[[1, 2, 0]], [[30000000, 5, 0]]] [[0, 0, 0]] [[7]] (Some (9 / 10)) =
   Inr (Dual (10000001 / 2) (- (29999997 / (4 * (350 * BOLTZMAN)))), PyFloat (10000001 / 2))"
  using compute_we_ignores_neff_threshold
          [of ex_self "[[[1, 2, 0]], [[30000000, 5, 0]]]" "[[0, 0, 0]]" "[[7]]" "Some (9 / 10)" None]
        ex_compute_we_two [of None]
  by simp

section \<open>Facts about the gradient computation\<close>

lemma compute_loss_avg_metric:
  assumes "compute_loss self crystal states embeddings val = Inr (loss, values_dict)"
  shows "\<exists>avg. values_dict ''avg_metric'' = Some avg"
  using assms by (auto simp: compute_loss_def Let_def split: sum.splits prod.splits)

lemma py_eq_bool_False_iff: "py_eq_bool val False \<longleftrightarrow> val \<in> {PyBool False, PyInt 0, PyFloat 0}"
  by (cases val) auto

lemma py_eq_bool_True_iff: "py_eq_bool val True \<longleftrightarrow> val \<in> {PyBool True, PyInt 1, PyFloat 1}"
  by (cases val) auto

text \<open>
  Claim C6, as amended. In train mode (a flag equal to \<^verbatim>\<open>False\<close>), when the loss has the
  value zero, \<^verbatim>\<open>compute_gradients\<close> does not run the backward pass and returns no
  gradients and the loss zero; the gradient slots are the ones \<^verbatim>\<open>zero_grad\<close> leaves, and
  the history and the optimizer are untouched.
\<close>

theorem compute_gradients_zero_loss:
  assumes "py_eq_bool val False"
    and "compute_loss self crystal states embeddings (PyBool False) = Inr (loss, values_dict)"
    and "primal loss = 0"
  shows "\<exists>avg. values_dict ''avg_metric'' = Some avg \<and>
           compute_gradients self crystal states embeddings grads_to_cpu val st =
             (st\<lparr>param_grads := zero_grad (set_to_none self) (param_grads st)\<rparr>,
              Inr (None, 0, values_dict(''train_avg_metric'' \<mapsto> avg)))"
proof -
  from compute_loss_avg_metric [OF assms(2)] obtain a where
    "values_dict ''avg_metric'' = Some a" ..
  then show ?thesis
    using assms by (simp add: compute_gradients_def Let_def)
qed


lemma ex_compute_we_plain:
  assumes "nnp self = ex_nnp" and "metric self = ex_metric" and "T self = 350"
    and "replicas self = 1"
  shows "compute_we self [[[1, 2, 0]], [[3, 5, 0]]] [[0, 0, 0]] [[7]] t =
         Inr (Dual 2 (- (3 / (2 * (350 * BOLTZMAN)))), PyFloat 2)"
proof -
  have t: "T self \<noteq> 0" using assms(3) by simp
  show ?thesis
    unfolding compute_we_def weights_of_energies [OF ex_extEpot_two [OF assms(1,4)] t]
    using assms(2,3)
    by (simp add: ex_metric_def torch_multiply_def broadcast2_def dmul_def const_def
        torch_sum_def BOLTZMAN_def)
qed

lemma ex_compute_loss_zero:
  assumes "nnp self = ex_nnp" and "metric self = ex_metric" and "T self = 350"
    and "replicas self = 1" and "loss_fn self = ex_zero_loss"
  shows "compute_loss self [[0, 0, 0]] [[[1, 2, 0]], [[3, 5, 0]]] [[7]] (PyBool False) =
         Inr (Dual 0 0, [''loss_2'' \<mapsto> PyNone, ''loss_1'' \<mapsto> PyFloat 0, ''avg_metric'' \<mapsto> PyFloat 2])"
  using assms(5)
  by (simp add: compute_loss_def ex_compute_we_plain [OF assms(1-4)] ex_zero_loss_def const_def)


theorem compute_gradients_zero_loss_witness:
  "py_eq_bool (PyBool False) False \<and>
   compute_loss (ex_self\<lparr>loss_fn := ex_zero_loss\<rparr>) [[0, 0, 0]] [[[1, 2, 0]], [[3, 5, 0]]] [[7]]
     (PyBool False) =
     Inr (Dual 0 0, [''loss_2'' \<mapsto> PyNone, ''loss_1'' \<mapsto> PyFloat 0, ''avg_metric'' \<mapsto> PyFloat 2]) \<and>
   primal (Dual 0 0) = 0 \<and>
   compute_gradients (ex_self\<lparr>loss_fn := ex_zero_loss\<rparr>) [[0, 0, 0]] [[[1, 2, 0]], [[3, 5, 0]]]
     [[7]] True (PyBool False) ex_state =
     (ex_state\<lparr>param_grads := [Some [0, 0], None]\<rparr>,
      Inr (None, 0, [''loss_2'' \<mapsto> PyNone, ''loss_1'' \<mapsto> PyFloat 0, ''avg_metric'' \<mapsto> PyFloat 2,
                     ''train_avg_metric'' \<mapsto> PyFloat 2]))"
proof -
  have a: "py_eq_bool (PyBool False) False" by simp
  have c: "primal (Dual 0 0) = 0" by simp
  have l: "compute_loss (ex_self\<lparr>loss_fn := ex_zero_loss\<rparr>) [[0, 0, 0]]
             [[[1, 2, 0]], [[3, 5, 0]]] [[7]] (PyBool False) =
           Inr (Dual 0 0, [''loss_2'' \<mapsto> PyNone, ''loss_1'' \<mapsto> PyFloat 0, ''avg_metric'' \<mapsto> PyFloat 2])"
    by (rule ex_compute_loss_zero) (simp_all add: ex_self_def)
  from compute_gradients_zero_loss [OF a l c, of True ex_state]
  show ?thesis
    using l by (simp add: zero_grad_def ex_state_def ex_self_def)
qed

text \<open>
  With a loss transform that returns zero, the call returns no gradients, but the
  gradient \<open>[3, 4]\<close> accumulated before the call is gone: it is zeroed, or removed when
  \<^verbatim>\<open>zero_grad\<close> sets gradients to \<^verbatim>\<open>None\<close>.
\<close>

theorem compute_gradients_zero_loss_counterexample:
  "param_grads ex_state = [Some [3, 4], None] \<and>
   param_grads (fst (compute_gradients (ex_self\<lparr>loss_fn := ex_zero_loss\<rparr>) [[0, 0, 0]]
                       [[[1, 2, 0]], [[3, 5, 0]]] [[7]] True (PyBool False) ex_state)) =
     [Some [0, 0], None] \<and>
   param_grads (fst (compute_gradients (ex_self\<lparr>loss_fn := ex_zero_loss, set_to_none := True\<rparr>)
                       [[0, 0, 0]] [[[1, 2, 0]], [[3, 5, 0]]] [[7]] True (PyBool False) ex_state)) =
     [None, None] \<and>
   map_sum id fst (snd (compute_gradients (ex_self\<lparr>loss_fn := ex_zero_loss\<rparr>) [[0, 0, 0]]
                          [[[1, 2, 0]], [[3, 5, 0]]] [[7]] True (PyBool False) ex_state)) =
     Inr None"
proof -
  have l: "compute_loss (ex_self\<lparr>loss_fn := ex_zero_loss\<rparr>) [[0, 0, 0]]
             [[[1, 2, 0]], [[3, 5, 0]]] [[7]] (PyBool False) =
           Inr (Dual 0 0, [''loss_2'' \<mapsto> PyNone, ''loss_1'' \<mapsto> PyFloat 0, ''avg_metric'' \<mapsto> PyFloat 2])"
    by (rule ex_compute_loss_zero) (simp_all add: ex_self_def)
  have z: "compute_loss (ex_self\<lparr>loss_fn := ex_zero_loss, set_to_none := True\<rparr>) [[0, 0, 0]]
             [[[1, 2, 0]], [[3, 5, 0]]] [[7]] (PyBool False) =
           Inr (Dual 0 0, [''loss_2'' \<mapsto> PyNone, ''loss_1'' \<mapsto> PyFloat 0, ''avg_metric'' \<mapsto> PyFloat 2])"
    by (rule ex_compute_loss_zero) (simp_all add: ex_self_def)
  show ?thesis
    unfolding compute_gradients_def l z
    by (simp add: zero_grad_def ex_state_def ex_self_def)
qed



section \<open>Facts about the sub-batches\<close>

lemma slice_take:
  assumes "b \<le> m"
  shows "slice a b (take m xs) = slice a b xs"
proof -
  have "take (b - a) (drop a (take m xs)) = take (b - a) (take (m - a) (drop a xs))"
    by (simp add: drop_take)
  also have "\<dots> = take (b - a) (drop a xs)"
    using assms by (simp add: min_def)
  finally show ?thesis by (simp add: slice_def)
qed

lemma extEpot_step_take:
  assumes "batch_num * (irepl + 1) \<le> m"
  shows "extEpot_step self (take m states) emb0 batch_num irepl acc =
         extEpot_step self states emb0 batch_num irepl acc"
  by (simp only: extEpot_step_def slice_take [OF assms])

lemma extEpot_loop_take:
  assumes "\<forall>i \<in> set is. batch_num * (i + 1) \<le> m"
  shows "extEpot_loop self (take m states) emb0 batch_num is acc =
         extEpot_loop self states emb0 batch_num is acc"
  using assms
  by (induction "is" arbitrary: acc) (simp_all add: extEpot_step_take cong: sum.case_cong)

text \<open>The states after the last full sub-batch never reach the potential.\<close>

lemma extEpot_take:
  "extEpot self (take (replicas self * (length states div replicas self)) states) embeddings =
   extEpot self states embeddings"
proof (cases "replicas self = 0")
  case True
  then show ?thesis by (simp add: extEpot_def)
next
  case False
  define r where "r = replicas self"
  define bn where "bn = length states div r"
  have r: "0 < r" using False by (simp add: r_def)
  have le: "r * bn \<le> length states" by (simp add: bn_def)
  have bn': "length (take (r * bn) states) div r = bn" using le r by simp
  have "bn * (i + 1) \<le> r * bn" if "i < r" for i
  proof -
    have "i + 1 \<le> r" using that by simp
    then have "bn * (i + 1) \<le> bn * r" by (rule mult_le_mono2)
    then show ?thesis by (simp add: mult.commute)
  qed
  then have "\<forall>i \<in> set [0..<r]. bn * (i + 1) \<le> r * bn"
    by simp
  then have f: "extEpot_loop self (take (r * bn) states) emb0 bn [0..<r] ([], []) =
                extEpot_loop self states emb0 bn [0..<r] ([], [])" for emb0
    by (rule extEpot_loop_take)
  show ?thesis
    using r f bn'
    by (simp add: extEpot_def r_def [symmetric] bn_def [symmetric] cong: list.case_cong)
qed

text \<open>
  Claim C7, as amended. The evaluator makes no divisibility check. For a replica count
  other than zero it passes to the potential, replica by replica, sub-batches of
  \<open>n div replicas\<close> consecutive states; when the coordinates of these states are within
  single precision and the potential returns energies for every sub-batch, the
  evaluator returns these energies, in the order of the replicas, and their detached
  copy. The states after the first \<open>replicas * (n div replicas)\<close> are left out: the result
  is the result for the first \<open>replicas * (n div replicas)\<close> states alone, and a potential
  that returns one energy per state gives \<open>replicas * (n div replicas)\<close> energies.
\<close>

theorem extEpot_drops_trailing_states:
  assumes "potential_returns self states emb0 Es"
  shows "extEpot self states (emb0 # rest) = Inr (concat Es, detach (concat Es)) \<and>
         extEpot self (take (replicas self * (length states div replicas self)) states)
           (emb0 # rest) = Inr (concat Es, detach (concat Es)) \<and>
         (one_energy_per_state self \<and> emb0 \<noteq> [] \<longrightarrow>
            length (concat Es) = replicas self * (length states div replicas self))"
proof -
  have e: "extEpot self states (emb0 # rest) = Inr (concat Es, detach (concat Es))"
    using assms by (rule extEpot_energies)
  have n: "length (concat Es) = replicas self * (length states div replicas self)"
    if "one_energy_per_state self" and "emb0 \<noteq> []"
    using assms that by (rule potential_returns_length)
  show ?thesis
    using e n by (simp add: extEpot_take)
qed

theorem extEpot_drops_trailing_states_witness:
  "potential_returns (ex_self\<lparr>replicas := 2\<rparr>) [[[1, 2, 0]], [[3, 5, 0]], [[4, 6, 0]]] [7]
     [[Dual 1 2], [Dual 3 5]] \<and>
   one_energy_per_state (ex_self\<lparr>replicas := 2\<rparr>) \<and> [7 :: int] \<noteq> [] \<and>
   extEpot (ex_self\<lparr>replicas := 2\<rparr>) [[[1, 2, 0]], [[3, 5, 0]], [[4, 6, 0]]] [[7]] =
     Inr ([Dual 1 2, Dual 3 5], [Dual 1 0, Dual 3 0]) \<and>
   extEpot (ex_self\<lparr>replicas := 2\<rparr>) [[[1, 2, 0]], [[3, 5, 0]]] [[7]] =
     Inr ([Dual 1 2, Dual 3 5], [Dual 1 0, Dual 3 0]) \<and>
   length [Dual 1 2, Dual 3 5] =
     replicas (ex_self\<lparr>replicas := 2\<rparr>) *
       (length [[[1, 2, 0]], [[3, 5, 0]], [[4, 6, 0 :: real]]] div replicas (ex_self\<lparr>replicas := 2\<rparr>))"
proof -
  have p: "potential_returns (ex_self\<lparr>replicas := 2\<rparr>) [[[1, 2, 0]], [[3, 5, 0]], [[4, 6, 0]]]
             [7] [[Dual 1 2], [Dual 3 5]]"
    by (rule ex_potential_returns_three) (simp_all add: ex_self_def)
  have o: "one_energy_per_state (ex_self\<lparr>replicas := 2\<rparr>)"
    by (rule ex_one_energy_per_state) (simp add: ex_self_def)
  from extEpot_drops_trailing_states [OF p, of "[]"] o
  show ?thesis
    using p by (simp add: detach_def detach1_def)
qed

text \<open>
  Three states and two replicas: the evaluator returns the energies of the first two
  states and no error.
\<close>

theorem extEpot_shape_error_counterexample:
  "length [[[1, 2, 0]], [[3, 5, 0]], [[4, 6, 0 :: real]]] mod replicas (ex_self\<lparr>replicas := 2\<rparr>) \<noteq> 0 \<and>
   extEpot (ex_self\<lparr>replicas := 2\<rparr>) [[[1, 2, 0]], [[3, 5, 0]], [[4, 6, 0]]] [[7]] =
     Inr ([Dual 1 2, Dual 3 5], [Dual 1 0, Dual 3 0])"
proof -
  have "extEpot (ex_self\<lparr>replicas := 2\<rparr>) [[[1, 2, 0]], [[3, 5, 0]], [[4, 6, 0]]] [[7]] =
        Inr ([Dual 1 2, Dual 3 5], [Dual 1 0, Dual 3 0])"
    by (rule ex_extEpot_three) (simp_all add: ex_self_def)
  then show ?thesis by simp
qed

text \<open>
  With three states and two replicas the mismatch shows only in \<^verbatim>\<open>compute_we\<close>, where
  two weights meet three metric values. With one state and two replicas it does not
  show at all: no weight meets one metric value, and the weighted observable is zero.
\<close>

lemma ex_compute_we_shape_error:
  "compute_we (ex_self\<lparr>replicas := 2\<rparr>) [[[1, 2, 0]], [[3, 5, 0]], [[4, 6, 0]]] [[0, 0, 0]] [[7]]
     None = Inl ShapeError"
  unfolding compute_we_def ex_weights_three
  by (simp add: torch_multiply_def broadcast2_def)

lemma ex_compute_we_silent:
  "compute_we (ex_self\<lparr>replicas := 2\<rparr>) [[[1, 2, 0]]] [[0, 0, 0]] [[7]] None =
   Inr (Dual 0 0, PyFloat 1)"
proof -
  have "potential_returns (ex_self\<lparr>replicas := 2\<rparr>) [[[1, 2, 0]]] [7] [[], []]"
    by (simp add: potential_returns_def ex_self_def ex_nnp_def all_less_2)
  from extEpot_energies [OF this, of "[]"]
  have e: "extEpot (ex_self\<lparr>replicas := 2\<rparr>) [[[1, 2, 0]]] [[7]] = Inr ([], [])"
    by (simp add: detach_def)
  have t: "T (ex_self\<lparr>replicas := 2\<rparr>) \<noteq> 0" by (simp add: ex_self_def)
  show ?thesis
    unfolding compute_we_def weights_of_energies [OF e t]
    by (simp add: torch_multiply_def broadcast2_def torch_sum_def ex_self_def ex_metric_def)
qed

section \<open>Facts about the clipping\<close>

lemma norm2_single: "norm2 [x] = \<bar>x\<bar>"
  by (simp add: norm2_def)

lemma norm2_3000_4000: "norm2 [3000, 4000] = 5000"
proof -
  have "sqrt (5000 * 5000) = \<bar>5000 :: real\<bar>" by (rule real_sqrt_abs2)
  then show ?thesis by (simp add: norm2_def)
qed

lemma norm2_nonneg: "0 \<le> norm2 g"
proof -
  have "0 \<le> sum_list (map (\<lambda>x. x * x) g)" by (induction g) simp_all
  then show ?thesis by (simp add: norm2_def)
qed

lemma norm2_scale: "norm2 (map (\<lambda>x. x * c) g) = \<bar>c\<bar> * norm2 g"
proof -
  have "sum_list (map (\<lambda>x. x * c * (x * c)) g) = (c * c) * sum_list (map (\<lambda>x. x * x) g)"
    by (induction g) (simp_all add: algebra_simps)
  then show ?thesis
    by (simp add: norm2_def comp_def real_sqrt_mult)
qed

text \<open>
  One parameter on its own: a gradient whose norm exceeds the bound is scaled to a norm
  just below the bound, and a gradient whose norm is below the bound is left as it is.
\<close>

lemma clip_grad_norm_scaled:
  assumes "0 \<le> max_norm" and "max_norm \<le> norm2 g"
  shows "norm2 (clip_grad_norm g max_norm) = max_norm * norm2 g / (norm2 g + 0.000001)"
proof -
  define c where "c = max_norm / (norm2 g + 0.000001)"
  have p: "0 < norm2 g + 0.000001" using norm2_nonneg [of g] by simp
  then have "c \<le> 1" using assms(2) by (simp add: c_def)
  then have m: "min c 1 = c" by simp
  have "0 \<le> c" using assms(1) p by (simp add: c_def)
  then have n: "norm2 (map (\<lambda>x. x * c) g) = c * norm2 g" by (simp add: norm2_scale)
  have "clip_grad_norm g max_norm = map (\<lambda>x. x * min c 1) g"
    by (simp add: clip_grad_norm_def Let_def c_def)
  then have "norm2 (clip_grad_norm g max_norm) = c * norm2 g"
    by (simp only: m n)
  then show ?thesis by (simp add: c_def)
qed

lemma clip_grad_norm_unchanged:
  assumes "norm2 g + 0.000001 \<le> max_norm"
  shows "clip_grad_norm g max_norm = g"
proof -
  have p: "0 < norm2 g + 0.000001" using norm2_nonneg [of g] by simp
  then have "1 \<le> max_norm / (norm2 g + 0.000001)" using assms by simp
  then have "min (max_norm / (norm2 g + 0.000001)) 1 = 1" by simp
  then show ?thesis by (simp add: clip_grad_norm_def Let_def)
qed

text \<open>
  The threshold is one and a half times the mean plus twice the standard deviation of
  the history, and the smaller of the total norm and the threshold is appended to the
  history.
\<close>

lemma clip_gradients_threshold_history:
  assumes "items (gradnorm_queue st) \<noteq> []"
  shows "\<exists>st'. clip_gradients st = Inr st' \<and>
           gradnorm_queue st' =
             queue_add (gradnorm_queue st)
               (min (get_grad_norm (param_grads st))
                    (1.5 * queue_mean (gradnorm_queue st) + 2 * queue_std (gradnorm_queue st))) \<and>
           opt_steps st' = opt_steps st \<and> length (param_grads st') = length (param_grads st)"
  using assms by (simp add: clip_gradients_def Let_def min_def)

text \<open>
  Claim C3 at a gradient of two parameters, \<open>[3000]\<close> and \<open>[4000]\<close>, with the history
  \<open>[3000]\<close>: the threshold is 4500 and the total norm is 5000, above the threshold, but
  each parameter is clipped on its own and its own norm is below the threshold, so no
  gradient is scaled; the total norm stays 5000 while 4500 is appended to the history.
\<close>

theorem clip_gradients_per_parameter:
  "apply_gradients (Some [Some [3000], Some [4000]])
     \<lparr>param_grads = [None, None], gradnorm_queue = \<lparr>items = [3000], max_len = 50\<rparr>,
      opt_steps = 0\<rparr> =
   Inr \<lparr>param_grads = [Some [3000], Some [4000]],
        gradnorm_queue = \<lparr>items = [3000, 4500], max_len = 50\<rparr>, opt_steps = 1\<rparr> \<and>
   get_grad_norm [Some [3000], Some [4000]] = 5000 \<and>
   1.5 * queue_mean \<lparr>items = [3000], max_len = 50\<rparr> + 2 * queue_std \<lparr>items = [3000], max_len = 50\<rparr>
     = 4500"
  by (simp add: apply_gradients_def clip_gradients_def queue_mean_def queue_std_def
      get_grad_norm_def norm2_3000_4000 clip_grad_norm_def norm2_single queue_add_def Let_def)

end
